theory Spec2Isabelle
  imports Complex_Main
begin

section \<open>Python values, strings and exceptions\<close>

text \<open>
  A Python \<open>str\<close> is modelled as a \<open>string\<close>, one \<open>char\<close> per code point, so the
  model covers texts whose code points lie below 256. The few characters above
  that range that the code itself produces (the bullet and the emoji of its
  literals, two capitals of \<open>str.upper\<close>) are written as their UTF-8 bytes; no
  length is ever taken of a text that holds one.
\<close>

definition is_AZ :: "char \<Rightarrow> bool" where
  "is_AZ c = (let n = (of_char c :: nat) in 65 \<le> n \<and> n \<le> 90)"

text \<open>
  The class \<open>\w\<close> of Python's \<open>re\<close> on \<open>str\<close> patterns: alphanumeric code points
  and the underscore. Below 256 these are the ASCII ones and the letters and
  numerals of the Latin-1 supplement.
\<close>

definition is_word :: "char \<Rightarrow> bool" where
  "is_word c = (let n = (of_char c :: nat) in
     (48 \<le> n \<and> n \<le> 57) \<or> (65 \<le> n \<and> n \<le> 90) \<or> n = 95 \<or> (97 \<le> n \<and> n \<le> 122) \<or>
     n = 170 \<or> n = 178 \<or> n = 179 \<or> n = 181 \<or> n = 185 \<or> n = 186 \<or>
     n = 188 \<or> n = 189 \<or> n = 190 \<or>
     (192 \<le> n \<and> n \<le> 214) \<or> (216 \<le> n \<and> n \<le> 246) \<or> (248 \<le> n \<and> n \<le> 255))"

text \<open>
  \<open>str.upper\<close>: the sharp s becomes \<open>SS\<close>. The capitals of the micro sign (U+039C)
  and of y with diaeresis (U+0178) lie above the range and are written, like the
  literals, as their UTF-8 bytes.
\<close>

definition upper_char :: "char \<Rightarrow> string" where
  "upper_char c = (let n = (of_char c :: nat) in
     if 97 \<le> n \<and> n \<le> 122 then [char_of (n - 32)]
     else if n = 181 then [CHR 0xCE, CHR 0x9C]
     else if n = 223 then ''SS''
     else if (224 \<le> n \<and> n \<le> 246) \<or> (248 \<le> n \<and> n \<le> 254) then [char_of (n - 32)]
     else if n = 255 then [CHR 0xC5, CHR 0xB8]
     else [c])"

definition py_upper :: "string \<Rightarrow> string" where
  "py_upper s = concat (map upper_char s)"

definition lower_char :: "char \<Rightarrow> char" where
  "lower_char c = (let n = (of_char c :: nat) in
     if (65 \<le> n \<and> n \<le> 90) \<or> (192 \<le> n \<and> n \<le> 214) \<or> (216 \<le> n \<and> n \<le> 222)
     then char_of (n + 32) else c)"

definition py_lower :: "string \<Rightarrow> string" where
  "py_lower s = map lower_char s"

definition startswith :: "string \<Rightarrow> string \<Rightarrow> bool" where
  "startswith s p = (take (length p) s = p)"

text \<open>Exceptions; \<open>ProviderError\<close> stands for whatever else an external library raises.\<close>

datatype py_exn =
    KeyError string
  | TypeError string
  | AttributeError string
  | ValueError string
  | OverflowError string
  | ProviderError string

text \<open>\<open>str(e)\<close>: a \<open>KeyError\<close> shows the \<open>repr\<close> of its key.\<close>

fun exn_str :: "py_exn \<Rightarrow> string" where
  "exn_str (KeyError k) = [CHR 0x27] @ k @ [CHR 0x27]"
| "exn_str (TypeError m) = m"
| "exn_str (AttributeError m) = m"
| "exn_str (ValueError m) = m"
| "exn_str (OverflowError m) = m"
| "exn_str (ProviderError m) = m"

fun join :: "string \<Rightarrow> string list \<Rightarrow> string" where
  "join sep [] = []"
| "join sep [x] = x"
| "join sep (x # y # ys) = x @ sep @ join sep (y # ys)"

subsection \<open>Integers as decimal text\<close>

definition digit_char :: "int \<Rightarrow> char" where
  "digit_char d = char_of (48 + d)"

text \<open>The decimal digits of an integer that is not negative.\<close>

function int_digits :: "int \<Rightarrow> string" where
  "int_digits n = (if n < 10 then [digit_char n] else int_digits (n div 10) @ [digit_char (n mod 10)])"
  by pat_completeness auto
termination
  by (relation "measure nat") auto

declare int_digits.simps [simp del]

definition int_str :: "int \<Rightarrow> string" where
  "int_str x = (if x < 0 then ''-'' @ int_digits (- x) else int_digits x)"

text \<open>The thousands separator of the format option \<open>,\<close>: a comma before every third digit, counted from the right.\<close>

fun group_rev :: "string \<Rightarrow> string" where
  "group_rev (a # b # c # d # ds) = a # b # c # CHR '','' # group_rev (d # ds)"
| "group_rev ds = ds"

definition grouped :: "string \<Rightarrow> string" where
  "grouped ds = rev (group_rev (rev ds))"

definition int_grouped :: "int \<Rightarrow> string" where
  "int_grouped x = (if x < 0 then ''-'' @ grouped (int_digits (- x)) else grouped (int_digits x))"

subsection \<open>Floats\<close>

text \<open>
  Rounding a rational to the nearest binary64 number, ties to the even
  significand; the exponent range is that of binary64, so small values round to
  subnormal numbers or to zero. The result is not bounded above: a result of
  \<open>2 ^ 1024\<close> or more is what overflows.
\<close>

definition round_half_even :: "rat \<Rightarrow> int" where
  "round_half_even q =
     (let f = \<lfloor>q\<rfloor>; r = q - of_int f in
      if r < 1 / 2 then f
      else if 1 / 2 < r then f + 1
      else if even f then f else f + 1)"

definition pow2 :: "int \<Rightarrow> rat" where
  "pow2 e = (if 0 \<le> e then 2 ^ nat e else 1 / 2 ^ nat (- e))"

definition pow10 :: "int \<Rightarrow> rat" where
  "pow10 e = (if 0 \<le> e then 10 ^ nat e else 1 / 10 ^ nat (- e))"

text \<open>The number of binary digits of a positive integer.\<close>

function bit_length :: "int \<Rightarrow> int" where
  "bit_length n = (if n \<le> 0 then 0 else 1 + bit_length (n div 2))"
  by pat_completeness auto
termination
  by (relation "measure nat") auto

declare bit_length.simps [simp del]

text \<open>For \<open>q > 0\<close>, the exponent \<open>e\<close> with \<open>2 ^ e \<le> q < 2 ^ (e + 1)\<close>.\<close>

definition ilog2 :: "rat \<Rightarrow> int" where
  "ilog2 q =
     (let (a, b) = quotient_of q;
          e = bit_length a - bit_length b
      in if pow2 e \<le> q then e else e - 1)"

definition round_binary64 :: "rat \<Rightarrow> rat" where
  "round_binary64 q =
     (if q = 0 then 0
      else let e = max (ilog2 \<bar>q\<bar>) (- 1022); u = pow2 (e - 52)
           in of_int (round_half_even (q / u)) * u)"

text \<open>
  A float: \<open>Fin q\<close> is the finite float nearest to the rational \<open>q\<close> (so every
  \<open>q\<close> names a float, the way a decimal literal does, and a \<open>q\<close> too large names
  an infinity); besides these the negative zero, the two infinities and not-a-number.
  \<open>norm_float\<close> gives the float itself: \<open>Fin\<close> of its exact value, or a special one.
\<close>

datatype pyfloat = Fin rat | NegZero | PosInf | NegInf | NaN

definition norm_float :: "pyfloat \<Rightarrow> pyfloat" where
  "norm_float x =
     (case x of
        Fin q \<Rightarrow>
          (let r = round_binary64 q in
           if 2 ^ 1024 \<le> r then PosInf
           else if r \<le> - (2 ^ 1024) then NegInf
           else if r = 0 \<and> q < 0 then NegZero
           else Fin r)
      | NegZero \<Rightarrow> NegZero
      | PosInf \<Rightarrow> PosInf
      | NegInf \<Rightarrow> NegInf
      | NaN \<Rightarrow> NaN)"

text \<open>\<open>float(x)\<close> for an integer, as the conversions of \<open>/\<close> and of the format code \<open>f\<close> do it.\<close>

definition float_of_int :: "int \<Rightarrow> py_exn + pyfloat" where
  "float_of_int x =
     (let r = round_binary64 (of_int x) in
      if 2 ^ 1024 \<le> \<bar>r\<bar> then Inl (OverflowError ''int too large to convert to float'')
      else Inr (Fin r))"

text \<open>\<open>x / d\<close> and \<open>x * d\<close> for a float \<open>x\<close> and a positive finite float \<open>d\<close>.\<close>

definition float_div :: "pyfloat \<Rightarrow> rat \<Rightarrow> pyfloat" where
  "float_div x d =
     (case norm_float x of
        Fin r \<Rightarrow> norm_float (Fin (r / d))
      | NegZero \<Rightarrow> NegZero
      | PosInf \<Rightarrow> PosInf
      | NegInf \<Rightarrow> NegInf
      | NaN \<Rightarrow> NaN)"

definition float_mul :: "pyfloat \<Rightarrow> rat \<Rightarrow> pyfloat" where
  "float_mul x d =
     (case norm_float x of
        Fin r \<Rightarrow> norm_float (Fin (r * d))
      | NegZero \<Rightarrow> NegZero
      | PosInf \<Rightarrow> PosInf
      | NegInf \<Rightarrow> NegInf
      | NaN \<Rightarrow> NaN)"

definition float_abs :: "pyfloat \<Rightarrow> pyfloat" where
  "float_abs x =
     (case norm_float x of
        Fin r \<Rightarrow> Fin \<bar>r\<bar>
      | NegZero \<Rightarrow> Fin 0
      | PosInf \<Rightarrow> PosInf
      | NegInf \<Rightarrow> PosInf
      | NaN \<Rightarrow> NaN)"

text \<open>\<open>x >= c\<close> for a finite float \<open>c\<close>; every comparison with not-a-number is false.\<close>

definition float_ge :: "pyfloat \<Rightarrow> rat \<Rightarrow> bool" where
  "float_ge x c =
     (case norm_float x of
        Fin r \<Rightarrow> c \<le> r
      | NegZero \<Rightarrow> c \<le> 0
      | PosInf \<Rightarrow> True
      | NegInf \<Rightarrow> False
      | NaN \<Rightarrow> False)"

definition float_truthy :: "pyfloat \<Rightarrow> bool" where
  "float_truthy x =
     (case norm_float x of
        Fin r \<Rightarrow> r \<noteq> 0
      | NegZero \<Rightarrow> False
      | PosInf \<Rightarrow> True
      | NegInf \<Rightarrow> True
      | NaN \<Rightarrow> True)"

text \<open>\<open>x / d\<close> for an integer \<open>x\<close> and a positive finite float \<open>d\<close>.\<close>

definition int_truediv :: "int \<Rightarrow> rat \<Rightarrow> py_exn + pyfloat" where
  "int_truediv x d =
     (case float_of_int x of
        Inl e \<Rightarrow> Inl e
      | Inr f \<Rightarrow> Inr (float_div f d))"

definition two_digits :: "int \<Rightarrow> string" where
  "two_digits k = [digit_char (k div 10), digit_char (k mod 10)]"

text \<open>
  The format codes \<open>.2f\<close> and \<open>,.2f\<close>: for a finite value the decimal with two
  places nearest to it, ties to the even digit.
\<close>

definition fmt_2f :: "rat \<Rightarrow> string" where
  "fmt_2f v =
     (let n = round_half_even (\<bar>v\<bar> * 100);
          s = int_digits (n div 100) @ ''.'' @ two_digits (n mod 100)
      in if v < 0 then ''-'' @ s else s)"

definition fmt_2f_grouped :: "rat \<Rightarrow> string" where
  "fmt_2f_grouped v =
     (let n = round_half_even (\<bar>v\<bar> * 100);
          s = grouped (int_digits (n div 100)) @ ''.'' @ two_digits (n mod 100)
      in if v < 0 then ''-'' @ s else s)"

definition float_2f :: "pyfloat \<Rightarrow> string" where
  "float_2f x =
     (case norm_float x of
        Fin r \<Rightarrow> fmt_2f r
      | NegZero \<Rightarrow> ''-0.00''
      | PosInf \<Rightarrow> ''inf''
      | NegInf \<Rightarrow> ''-inf''
      | NaN \<Rightarrow> ''nan'')"

definition float_2f_grouped :: "pyfloat \<Rightarrow> string" where
  "float_2f_grouped x =
     (case norm_float x of
        Fin r \<Rightarrow> fmt_2f_grouped r
      | NegZero \<Rightarrow> ''-0.00''
      | PosInf \<Rightarrow> ''inf''
      | NegInf \<Rightarrow> ''-inf''
      | NaN \<Rightarrow> ''nan'')"

text \<open>
  \<open>repr\<close> of a float: the shortest decimal that rounds back to it, the nearest
  one if several of that length do. For \<open>r > 0\<close> and a number \<open>n\<close> of digits, the
  two decimals of \<open>n\<close> digits around \<open>r\<close> are tried.
\<close>

definition ilog10 :: "rat \<Rightarrow> int" where
  "ilog10 q =
     (let (a, b) = quotient_of q;
          k = int (length (int_digits a)) - int (length (int_digits b))
      in if pow10 k \<le> q then k else k - 1)"

definition shortest_try :: "rat \<Rightarrow> int \<Rightarrow> int \<Rightarrow> (int \<times> int) option" where
  "shortest_try r e10 n =
     (let s = e10 - n + 1;
          t = r / pow10 s;
          lo = \<lfloor>t\<rfloor>;
          hi = lo + 1;
          lo_ok = (round_binary64 (of_int lo * pow10 s) = r);
          hi_ok = (round_binary64 (of_int hi * pow10 s) = r)
      in if lo_ok \<and> hi_ok then
           (if t - of_int lo < of_int hi - t then Some (lo, s)
            else if of_int hi - t < t - of_int lo then Some (hi, s)
            else if even lo then Some (lo, s) else Some (hi, s))
         else if lo_ok then Some (lo, s)
         else if hi_ok then Some (hi, s)
         else None)"

fun shortest_search :: "rat \<Rightarrow> int \<Rightarrow> int list \<Rightarrow> int \<times> int" where
  "shortest_search r e10 [] = (0, 0)"
| "shortest_search r e10 (n # ns) =
     (case shortest_try r e10 n of
        Some p \<Rightarrow> p
      | None \<Rightarrow> shortest_search r e10 ns)"

function strip_zeros :: "int \<Rightarrow> int \<Rightarrow> int \<times> int" where
  "strip_zeros m s = (if 0 < m \<and> m mod 10 = 0 then strip_zeros (m div 10) (s + 1) else (m, s))"
  by pat_completeness auto
termination
  by (relation "measure (\<lambda>(m, s). nat m)") auto

declare strip_zeros.simps [simp del]

text \<open>
  The digits \<open>ds\<close> and the position \<open>decpt\<close> of the decimal point give the text:
  positional for \<open>-4 < decpt \<le> 16\<close>, with an exponent of at least two digits
  otherwise. With \<open>commas\<close> the integer part gets thousands separators, which is the
  format option \<open>,\<close> without a format code.
\<close>

definition fin_repr :: "bool \<Rightarrow> rat \<Rightarrow> string" where
  "fin_repr commas r =
     (case strip_zeros (fst (shortest_search \<bar>r\<bar> (ilog10 \<bar>r\<bar>) [1..17]))
                       (snd (shortest_search \<bar>r\<bar> (ilog10 \<bar>r\<bar>) [1..17])) of
        (m, s) \<Rightarrow>
          (let ds = int_digits m;
               decpt = int (length ds) + s;
               g = (\<lambda>ip. if commas then grouped ip else ip);
               body =
                 (if - 4 < decpt \<and> decpt \<le> 16 then
                    (if decpt \<le> 0 then ''0.'' @ replicate (nat (- decpt)) (CHR ''0'') @ ds
                     else if int (length ds) \<le> decpt
                     then g (ds @ replicate (nat (decpt - int (length ds))) (CHR ''0'')) @ ''.0''
                     else g (take (nat decpt) ds) @ ''.'' @ drop (nat decpt) ds)
                  else
                    (let e = decpt - 1 in
                     take 1 ds @ (if 1 < length ds then ''.'' @ drop 1 ds else []) @ ''e'' @
                     (if e < 0 then ''-'' else ''+'') @
                     (if \<bar>e\<bar> < 10 then ''0'' else []) @ int_digits \<bar>e\<bar>))
           in if r < 0 then ''-'' @ body else body))"

definition float_text :: "bool \<Rightarrow> pyfloat \<Rightarrow> string" where
  "float_text commas x =
     (case norm_float x of
        Fin r \<Rightarrow> if r = 0 then ''0.0'' else fin_repr commas r
      | NegZero \<Rightarrow> ''-0.0''
      | PosInf \<Rightarrow> ''inf''
      | NegInf \<Rightarrow> ''-inf''
      | NaN \<Rightarrow> ''nan'')"

definition float_repr :: "pyfloat \<Rightarrow> string" where
  "float_repr x = float_text False x"

definition float_grouped :: "pyfloat \<Rightarrow> string" where
  "float_grouped x = float_text True x"

subsection \<open>Values of the provider\<close>

text \<open>
  The values a provider record holds: \<open>None\<close>, an integer, a float or a text.
\<close>

datatype pyval = PNone | PInt int | PFloat pyfloat | PStr string

fun py_truthy :: "pyval \<Rightarrow> bool" where
  "py_truthy PNone = False"
| "py_truthy (PInt n) = (n \<noteq> 0)"
| "py_truthy (PFloat x) = float_truthy x"
| "py_truthy (PStr s) = (s \<noteq> [])"

text \<open>\<open>str(x)\<close>, which is also what an f-string shows without a format.\<close>

fun py_str :: "pyval \<Rightarrow> string" where
  "py_str PNone = ''None''"
| "py_str (PInt n) = int_str n"
| "py_str (PFloat x) = float_repr x"
| "py_str (PStr s) = s"

fun type_name :: "pyval \<Rightarrow> string" where
  "type_name PNone = ''NoneType''"
| "type_name (PInt n) = ''int''"
| "type_name (PFloat x) = ''float''"
| "type_name (PStr s) = ''str''"

text \<open>\<open>d.get(k)\<close> and \<open>d.get(k, default)\<close> on a record of the provider.\<close>

definition dict_get :: "(string \<rightharpoonup> pyval) \<Rightarrow> string \<Rightarrow> pyval" where
  "dict_get d k = (case d k of None \<Rightarrow> PNone | Some v \<Rightarrow> v)"

definition dict_get_default :: "(string \<rightharpoonup> pyval) \<Rightarrow> string \<Rightarrow> pyval \<Rightarrow> pyval" where
  "dict_get_default d k dflt = (case d k of None \<Rightarrow> dflt | Some v \<Rightarrow> v)"

section \<open>utils.py: the symbol extractor\<close>

subsection \<open>The three regular expressions\<close>

text \<open>
  \<open>\b\<close> holds between two positions when exactly one of the neighbouring
  characters is a word character; beyond either end of the text there is none.
\<close>

definition word_boundary :: "char option \<Rightarrow> string \<Rightarrow> bool" where
  "word_boundary prev rest =
     ((case prev of None \<Rightarrow> False | Some c \<Rightarrow> is_word c) \<noteq>
      (case rest of [] \<Rightarrow> False | c # _ \<Rightarrow> is_word c))"

text \<open>
  The group \<open>([A-Z]{1,5})\<close> followed by the rest of a pattern \<open>cont\<close>: the
  quantifier is greedy, so it first takes as many capitals as it can (at most five)
  and gives them back one at a time until the rest of the pattern matches.
  \<open>cont\<close> sees the last character of the group and the text after it.
\<close>

definition upper_group :: "(char option \<Rightarrow> string \<Rightarrow> bool) \<Rightarrow> string \<Rightarrow> string option" where
  "upper_group cont s =
     (let n = length (takeWhile is_AZ (take 5 s)) in
      case find (\<lambda>k. cont (Some (s ! (k - 1))) (drop k s)) (rev [1..<Suc n]) of
        None \<Rightarrow> None
      | Some k \<Rightarrow> Some (take k s))"

text \<open>Each pattern, tried at one position: the character before it and the text from it on.\<close>

definition match_dollar :: "char option \<Rightarrow> string \<Rightarrow> string option" where
  "match_dollar prev s =
     (case s of [] \<Rightarrow> None
      | c # cs \<Rightarrow> if c = CHR ''$'' then upper_group word_boundary cs else None)"

definition closing_paren :: "char option \<Rightarrow> string \<Rightarrow> bool" where
  "closing_paren prev rest = (case rest of [] \<Rightarrow> False | c # _ \<Rightarrow> c = CHR '')'')"

definition match_paren :: "char option \<Rightarrow> string \<Rightarrow> string option" where
  "match_paren prev s =
     (case s of [] \<Rightarrow> None
      | c # cs \<Rightarrow> if c = CHR ''('' then upper_group closing_paren cs else None)"

definition match_token :: "char option \<Rightarrow> string \<Rightarrow> string option" where
  "match_token prev s = (if word_boundary prev s then upper_group word_boundary s else None)"

text \<open>\<open>re.search\<close>: the match at the leftmost position that has one.\<close>

fun re_search_from :: "(char option \<Rightarrow> string \<Rightarrow> 'a option) \<Rightarrow> char option \<Rightarrow> string \<Rightarrow> 'a option" where
  "re_search_from m prev [] = m prev []"
| "re_search_from m prev (c # cs) =
     (case m prev (c # cs) of
        Some r \<Rightarrow> Some r
      | None \<Rightarrow> re_search_from m (Some c) cs)"

definition re_search :: "(char option \<Rightarrow> string \<Rightarrow> 'a option) \<Rightarrow> string \<Rightarrow> 'a option" where
  "re_search m text = re_search_from m None text"

text \<open>
  \<open>re.findall\<close> for a pattern that matches no empty text: the matches from left to
  right, the scan resuming behind each match. The first argument counts the
  characters of the last match still to be skipped.
\<close>

fun re_findall_from :: "(char option \<Rightarrow> string \<Rightarrow> string option) \<Rightarrow> nat \<Rightarrow> char option \<Rightarrow> string \<Rightarrow> string list" where
  "re_findall_from m skip prev [] = []"
| "re_findall_from m (Suc k) prev (c # cs) = re_findall_from m k (Some c) cs"
| "re_findall_from m 0 prev (c # cs) =
     (case m prev (c # cs) of
        Some t \<Rightarrow> t # re_findall_from m (length t - 1) (Some c) cs
      | None \<Rightarrow> re_findall_from m 0 (Some c) cs)"

definition re_findall :: "(char option \<Rightarrow> string \<Rightarrow> string option) \<Rightarrow> string \<Rightarrow> string list" where
  "re_findall m text = re_findall_from m 0 None text"

subsection \<open>extract_ticker_from_text\<close>

definition extract_ticker_from_text :: "string \<Rightarrow> string option" where
  "extract_ticker_from_text text =
     (case re_search match_dollar text of
        Some g \<Rightarrow> Some (py_upper g)
      | None \<Rightarrow>
         (case re_search match_paren text of
            Some g \<Rightarrow> Some (py_upper g)
          | None \<Rightarrow>
             (case filter (\<lambda>t. length t > 1) (re_findall match_token text) of
                [] \<Rightarrow> None
              | t # _ \<Rightarrow> Some (py_upper t))))"

text \<open>
  The occurrence the first rule looks for, in the words of the specification: a
  dollar sign, one to five capitals, and then the end of the text or a character
  that is no word character.
\<close>

definition dollar_ticker :: "string \<Rightarrow> string \<Rightarrow> bool" where
  "dollar_ticker letters post =
     (letters \<noteq> [] \<and> length letters \<le> 5 \<and> list_all is_AZ letters \<and>
      (case post of [] \<Rightarrow> True | c # _ \<Rightarrow> \<not> is_word c))"

definition has_dollar_ticker :: "string \<Rightarrow> bool" where
  "has_dollar_ticker s = (\<exists>a l b. s = a @ ''$'' @ l @ b \<and> dollar_ticker l b)"

section \<open>The external collaborators\<close>

text \<open>Source literals above the modelled range, as UTF-8 bytes.\<close>

definition NL :: string where "NL = [CHR 0x0A]"
definition bullet :: string where "bullet = [CHR 0xE2, CHR 0x80, CHR 0xA2]"
definition right_quote :: string where "right_quote = [CHR 0xE2, CHR 0x80, CHR 0x99]"
definition warning_sign :: string where
  "warning_sign = [CHR 0xE2, CHR 0x9A, CHR 0xA0, CHR 0xEF, CHR 0xB8, CHR 0x8F]"
definition cross_mark :: string where "cross_mark = [CHR 0xE2, CHR 0x9D, CHR 0x8C]"
definition check_mark :: string where "check_mark = [CHR 0xE2, CHR 0x9C, CHR 0x85]"
definition key_emoji :: string where "key_emoji = [CHR 0xF0, CHR 0x9F, CHR 0x94, CHR 0x91]"
definition siren_emoji :: string where "siren_emoji = [CHR 0xF0, CHR 0x9F, CHR 0x9A, CHR 0xA8]"
definition point_emoji :: string where "point_emoji = [CHR 0xF0, CHR 0x9F, CHR 0x91, CHR 0x89]"
definition chart_emoji :: string where "chart_emoji = [CHR 0xF0, CHR 0x9F, CHR 0x93, CHR 0x88]"
definition bars_emoji :: string where "bars_emoji = [CHR 0xF0, CHR 0x9F, CHR 0x93, CHR 0x8A]"
definition clock_emoji :: string where "clock_emoji = [CHR 0xF0, CHR 0x9F, CHR 0x95, CHR 0x92]"
definition paper_emoji :: string where
  "paper_emoji = [CHR 0xF0, CHR 0x9F, CHR 0x97, CHR 0x9E, CHR 0xEF, CHR 0xB8, CHR 0x8F]"
definition brain_emoji :: string where "brain_emoji = [CHR 0xF0, CHR 0x9F, CHR 0xA7, CHR 0xA0]"
definition en_dash :: string where "en_dash = [CHR 0xE2, CHR 0x80, CHR 0x93]"

text \<open>One entry of the session's message log, and of a chat request.\<close>

record message =
  role :: string
  content :: string

record chat_request =
  model :: string
  messages :: "message list"
  max_tokens :: nat
  temperature :: rat

text \<open>A news item of the provider is a dictionary, as a record of a ticker is.\<close>

type_synonym news_item = "string \<rightharpoonup> pyval"

text \<open>
  A data frame: the labels of its rows (the index, which may have a name) and
  its named columns. A cell is a value of the provider or a row position, which is
  what the index of a frame holds after \<open>reset_index\<close>.
\<close>

datatype 'c cell = Pos nat | Val 'c

record 'c frame =
  index_name :: "string option"
  index :: "'c cell list"
  columns :: "(string \<times> 'c cell list) list"

text \<open>
  What a run does to the outside, in order: the calls to the market-data
  provider and to the language model, and what it puts on the page.
\<close>

datatype 'c event =
    Yf_search string
  | Yf_info string
  | Yf_history string string string
  | Yf_news string
  | Chat_create chat_request
  | St_chat_message string string
  | St_spinner string
  | St_warning string
  | St_info string
  | St_error string
  | St_markdown string
  | St_subheader string
  | St_columns nat
  | St_metric string string
  | St_line_chart "'c cell list" "'c cell list"
  | St_set_page_config string string
  | St_title string

text \<open>
  The answers of the collaborators. Each may depend on everything that happened
  before it in the run and on its arguments, and each may raise (\<open>Inl\<close>).
  A search answers with the list under \<open>quotes\<close> if its result has one, each quote
  with its \<open>symbol\<close> entry if it has one; \<open>None\<close> stands for a result without
  \<open>quotes\<close>. The record of a ticker, its history and its news may each be \<open>None\<close>.
  \<open>yf_ticker\<close> is the construction \<open>yf.Ticker(symbol)\<close>, which may raise; \<open>yf_info\<close>,
  \<open>yf_history\<close> and \<open>yf_news\<close> are the reads of \<open>info\<close>, \<open>history(..)\<close> and \<open>news\<close> on
  the ticker built. A failed chat call comes with the text of its traceback. \<open>to_datetime\<close> is the
  conversion of a column by the data-frame library. \<open>load_dotenv\<close> answers whether it
  loaded a file and with the process environment after it; \<open>openai_init\<close> is the
  construction of the client from the key, which may raise.
\<close>

record 'c world =
  yf_ticker :: "'c event list \<Rightarrow> string \<Rightarrow> py_exn option"
  yf_search :: "'c event list \<Rightarrow> string \<Rightarrow> py_exn + string option list option"
  yf_info :: "'c event list \<Rightarrow> string \<Rightarrow> py_exn + (string \<rightharpoonup> pyval) option"
  yf_history :: "'c event list \<Rightarrow> string \<Rightarrow> string \<Rightarrow> string \<Rightarrow> py_exn + 'c frame option"
  yf_news :: "'c event list \<Rightarrow> string \<Rightarrow> py_exn + news_item list option"
  chat_create :: "'c event list \<Rightarrow> chat_request \<Rightarrow> (py_exn \<times> string) + string"
  to_datetime :: "'c cell list \<Rightarrow> py_exn + 'c cell list"
  load_dotenv :: "(string \<rightharpoonup> string) \<Rightarrow> bool \<times> (string \<rightharpoonup> string)"
  openai_init :: "string \<Rightarrow> py_exn option"

section \<open>utils.py: the market data client\<close>

text \<open>\<open>yf.Ticker(symbol).info\<close> and \<open>yf.Ticker(ticker).history(period=.., interval=..)\<close>.\<close>

definition ticker_info :: "'c world \<Rightarrow> 'c event list \<Rightarrow> string \<Rightarrow> py_exn + (string \<rightharpoonup> pyval) option" where
  "ticker_info w tr symbol =
     (case yf_ticker w tr symbol of
        Some e \<Rightarrow> Inl e
      | None \<Rightarrow> yf_info w tr symbol)"

definition ticker_history ::
    "'c world \<Rightarrow> 'c event list \<Rightarrow> string \<Rightarrow> string \<Rightarrow> string \<Rightarrow> py_exn + 'c frame option" where
  "ticker_history w tr ticker period interval =
     (case yf_ticker w tr ticker of
        Some e \<Rightarrow> Inl e
      | None \<Rightarrow> yf_history w tr ticker period interval)"

text \<open>
  \<open>stock = yf.Ticker(ticker); getattr(stock, "news", None)\<close>: an \<open>AttributeError\<close>
  that the read of \<open>news\<close> raises is what \<open>getattr\<close> with a default swallows; every
  other exception, and every exception of the construction, passes.
\<close>

definition ticker_news :: "'c world \<Rightarrow> 'c event list \<Rightarrow> string \<Rightarrow> py_exn + news_item list option" where
  "ticker_news w tr ticker =
     (case yf_ticker w tr ticker of
        Some e \<Rightarrow> Inl e
      | None \<Rightarrow>
         (case yf_news w tr ticker of
            Inl (AttributeError m) \<Rightarrow> Inr None
          | Inl e \<Rightarrow> Inl e
          | Inr r \<Rightarrow> Inr r))"

subsection \<open>get_stock_info\<close>

text \<open>The inner function \<open>fmt\<close>.\<close>

definition fmt :: "pyval \<Rightarrow> py_exn + string" where
  "fmt x =
     (case x of
        PNone \<Rightarrow> Inr ''N/A''
      | PInt n \<Rightarrow>
         (if 10 ^ 12 \<le> \<bar>n\<bar> then
            (case int_truediv n (10 ^ 12) of Inl e \<Rightarrow> Inl e | Inr q \<Rightarrow> Inr (''$'' @ float_2f q @ ''T''))
          else if 10 ^ 9 \<le> \<bar>n\<bar> then
            (case int_truediv n (10 ^ 9) of Inl e \<Rightarrow> Inl e | Inr q \<Rightarrow> Inr (''$'' @ float_2f q @ ''B''))
          else if 10 ^ 6 \<le> \<bar>n\<bar> then
            (case int_truediv n (10 ^ 6) of Inl e \<Rightarrow> Inl e | Inr q \<Rightarrow> Inr (''$'' @ float_2f q @ ''M''))
          else
            (case float_of_int n of Inl e \<Rightarrow> Inl e | Inr q \<Rightarrow> Inr (''$'' @ float_2f q)))
      | PFloat x \<Rightarrow>
         (if float_ge (float_abs x) (10 ^ 12) then Inr (''$'' @ float_2f (float_div x (10 ^ 12)) @ ''T'')
          else if float_ge (float_abs x) (10 ^ 9) then Inr (''$'' @ float_2f (float_div x (10 ^ 9)) @ ''B'')
          else if float_ge (float_abs x) (10 ^ 6) then Inr (''$'' @ float_2f (float_div x (10 ^ 6)) @ ''M'')
          else Inr (''$'' @ float_2f x))
      | PStr s \<Rightarrow> Inr s)"

text \<open>\<open>summary[:1500] + ("..." if len(summary) > 1500 else "")\<close>\<close>

definition summary_excerpt :: "pyval \<Rightarrow> py_exn + string" where
  "summary_excerpt summary =
     (case summary of
        PStr s \<Rightarrow> Inr (take 1500 s @ (if 1500 < length s then ''...'' else []))
      | _ \<Rightarrow>
         Inl (TypeError ([CHR 0x27] @ type_name summary @ [CHR 0x27] @ '' object is not subscriptable'')))"

text \<open>The part of the \<open>try\<close> block from \<open>name = ...\<close> on, for the record \<open>info\<close>.\<close>

definition stock_summary :: "string \<Rightarrow> (string \<rightharpoonup> pyval) \<Rightarrow> py_exn + string" where
  "stock_summary query info =
     (let name = (if py_truthy (dict_get info ''longName'') then dict_get info ''longName''
                  else if py_truthy (dict_get info ''shortName'') then dict_get info ''shortName''
                  else PStr query);
          current_price = dict_get info ''currentPrice'';
          market_cap = dict_get info ''marketCap'';
          summary = dict_get_default info ''longBusinessSummary'' (PStr []);
          sector = dict_get_default info ''sector'' (PStr ''N/A'');
          industry = dict_get_default info ''industry'' (PStr ''N/A'');
          line1 = ''**'' @ py_str name @ '' ('' @
                  py_str (dict_get_default info ''symbol'' (PStr (py_upper query))) @ '')**'';
          line2 = ''Sector: '' @ py_str sector @ '' '' @ bullet @ '' Industry: '' @ py_str industry
      in case fmt current_price of
           Inl e \<Rightarrow> Inl e
         | Inr price \<Rightarrow>
            (case fmt market_cap of
               Inl e \<Rightarrow> Inl e
             | Inr cap \<Rightarrow>
                (case summary_excerpt summary of
                   Inl e \<Rightarrow> Inl e
                 | Inr excerpt \<Rightarrow>
                    Inr (join NL [line1, line2, ''Price: '' @ price, ''Market Cap: '' @ cap,
                                  [], ''Summary:'', excerpt]))))"

text \<open>The \<open>except\<close> clause.\<close>

definition info_failure :: "string \<Rightarrow> py_exn \<Rightarrow> string" where
  "info_failure query e =
     ''Couldn'' @ [CHR 0x27] @ ''t fetch info for '' @ [CHR 0x27] @ query @ [CHR 0x27] @
     ''. Error: '' @ exn_str e"

definition caught :: "string \<Rightarrow> py_exn + string \<Rightarrow> string" where
  "caught query r = (case r of Inl e \<Rightarrow> info_failure query e | Inr s \<Rightarrow> s)"

text \<open>
  The function takes the events of the run so far and returns its text with
  the events extended by its own calls.
\<close>

definition get_stock_info :: "'c world \<Rightarrow> 'c event list \<Rightarrow> string \<Rightarrow> string \<times> 'c event list" where
  "get_stock_info w tr query =
     (let tr1 = tr @ [Yf_info (py_upper query)] in
      case ticker_info w tr (py_upper query) of
        Inl e \<Rightarrow> (info_failure query e, tr1)
      | Inr r \<Rightarrow>
         (let info = (case r of None \<Rightarrow> Map.empty | Some d \<Rightarrow> d) in
          if info ''shortName'' = None then
            (let tr2 = tr1 @ [Yf_search query] in
             case yf_search w tr1 query of
               Inl e \<Rightarrow> (info_failure query e, tr2)
             | Inr None \<Rightarrow> (caught query (stock_summary query info), tr2)
             | Inr (Some []) \<Rightarrow> (caught query (stock_summary query info), tr2)
             | Inr (Some (None # qs)) \<Rightarrow> (info_failure query (KeyError ''symbol''), tr2)
             | Inr (Some (Some best_match # qs)) \<Rightarrow>
                (let tr3 = tr2 @ [Yf_info best_match] in
                 case ticker_info w tr2 best_match of
                   Inl e \<Rightarrow> (info_failure query e, tr3)
                 | Inr None \<Rightarrow>
                    (info_failure query
                       (AttributeError ([CHR 0x27] @ ''NoneType'' @ [CHR 0x27] @
                          '' object has no attribute '' @ [CHR 0x27] @ ''get'' @ [CHR 0x27])), tr3)
                 | Inr (Some info2) \<Rightarrow> (caught query (stock_summary query info2), tr3)))
          else (caught query (stock_summary query info), tr1)))"

subsection \<open>get_stock_history\<close>

text \<open>\<open>df.empty\<close>: one of the two axes has length zero.\<close>

definition df_empty :: "'c frame \<Rightarrow> bool" where
  "df_empty df = (index df = [] \<or> columns df = [])"

text \<open>
  \<open>df.reset_index()\<close>: the index becomes the first column, under its name
  (\<open>index\<close> for a nameless one, \<open>level_0\<close> if that is taken), and the rows are
  labelled by their positions. A column of that name already there is an error.
\<close>

definition column_names :: "'c frame \<Rightarrow> string list" where
  "column_names df = map fst (columns df)"

definition reset_name :: "'c frame \<Rightarrow> string" where
  "reset_name df =
     (case index_name df of
        Some n \<Rightarrow> n
      | None \<Rightarrow> if ''index'' \<in> set (column_names df) then ''level_0'' else ''index'')"

definition reset_index :: "'c frame \<Rightarrow> py_exn + 'c frame" where
  "reset_index df =
     (if reset_name df \<in> set (column_names df)
      then Inl (ValueError (''cannot insert '' @ reset_name df @ '', already exists''))
      else Inr \<lparr>index_name = None,
                index = map Pos [0..<length (index df)],
                columns = (reset_name df, index df) # columns df\<rparr>)"

definition get_stock_history ::
    "'c world \<Rightarrow> 'c event list \<Rightarrow> string \<Rightarrow> string \<Rightarrow> string \<Rightarrow> 'c frame option \<times> 'c event list" where
  "get_stock_history w tr ticker period interval =
     (let tr1 = tr @ [Yf_history ticker period interval] in
      case ticker_history w tr ticker period interval of
        Inl e \<Rightarrow> (None, tr1)
      | Inr None \<Rightarrow> (None, tr1)
      | Inr (Some df) \<Rightarrow>
         if df_empty df then (None, tr1)
         else (case reset_index df of
                 Inl e \<Rightarrow> (None, tr1)
               | Inr df' \<Rightarrow> (Some df', tr1)))"

subsection \<open>get_latest_news\<close>

text \<open>The slice \<open>xs[:n]\<close>: a negative \<open>n\<close> counts from the end.\<close>

definition slice_to :: "'a list \<Rightarrow> int \<Rightarrow> 'a list" where
  "slice_to xs n = (if 0 \<le> n then take (nat n) xs else take (nat (int (length xs) + n)) xs)"

definition enumerate1 :: "'a list \<Rightarrow> (int \<times> 'a) list" where
  "enumerate1 xs = zip [1..int (length xs)] xs"

text \<open>
  The body of the loop for the item \<open>n\<close> numbered \<open>i\<close>. \<open>len(title)\<close> raises for a
  title that is no text; publisher and link are shown as \<open>str\<close> shows them.
\<close>

definition truncate_title :: "string \<Rightarrow> string" where
  "truncate_title t = (if 300 < length t then take 297 t @ ''...'' else t)"

definition format_news :: "int \<times> news_item \<Rightarrow> py_exn + string" where
  "format_news p =
     (case p of (i, n) \<Rightarrow>
        (let title = dict_get_default n ''title'' (PStr ''No title'');
             publisher = dict_get_default n ''publisher'' (PStr ''Unknown'');
             link = dict_get_default n ''link'' (PStr [])
         in case title of
              PStr t \<Rightarrow>
                Inr (int_digits i @ ''. **'' @ truncate_title t @ ''**  '' @ NL @
                     ''Source: '' @ py_str publisher @ ''  '' @ NL @ py_str link)
            | _ \<Rightarrow>
                Inl (TypeError (''object of type '' @ [CHR 0x27] @ type_name title @ [CHR 0x27] @
                       '' has no len()''))))"

text \<open>The loop: the first item that raises ends it.\<close>

fun format_all :: "(int \<times> news_item) list \<Rightarrow> py_exn + string list" where
  "format_all [] = Inr []"
| "format_all (p # ps) =
     (case format_news p of
        Inl e \<Rightarrow> Inl e
      | Inr x \<Rightarrow>
         (case format_all ps of
            Inl e \<Rightarrow> Inl e
          | Inr xs \<Rightarrow> Inr (x # xs)))"

definition get_latest_news :: "'c world \<Rightarrow> 'c event list \<Rightarrow> string \<Rightarrow> int \<Rightarrow> string \<times> 'c event list" where
  "get_latest_news w tr ticker count =
     (let tr1 = tr @ [Yf_news ticker] in
      case ticker_news w tr ticker of
        Inl e \<Rightarrow> (''Error fetching news: '' @ exn_str e, tr1)
      | Inr r \<Rightarrow>
         (let news = (case r of None \<Rightarrow> [] | Some xs \<Rightarrow> xs) in
          if news = [] then (''No recent news found.'', tr1)
          else
            (case format_all (enumerate1 (slice_to news count)) of
               Inl e \<Rightarrow> (''Error fetching news: '' @ exn_str e, tr1)
             | Inr formatted \<Rightarrow> (join (NL @ NL) formatted, tr1))))"

section \<open>config.py\<close>

definition missing_key_message :: string where
  "missing_key_message =
     siren_emoji @ '' OPENAI_API_KEY not found.'' @ NL @
     point_emoji @ '' Create a .env file in your project root with the line:'' @ NL @
     ''OPENAI_API_KEY=sk-your_real_openai_api_key_here''"

text \<open>
  The module, run on a process environment: the lines it prints, and the key it
  exports or the exception it raises. \<open>is_main\<close> tells whether it runs as the main
  module.
\<close>

definition config :: "'c world \<Rightarrow> (string \<rightharpoonup> string) \<Rightarrow> bool \<Rightarrow> string list \<times> (py_exn + string)" where
  "config w environ is_main =
     (case load_dotenv w environ of
        (env_loaded, env) \<Rightarrow>
          (let out = (if \<not> env_loaded
                      then [warning_sign @ '' Warning: .env file not found. Make sure it exists in the project root.'']
                      else [])
           in case env ''OPENAI_API_KEY'' of
                None \<Rightarrow> (out, Inl (ValueError missing_key_message))
              | Some k \<Rightarrow>
                 if k = [] then (out, Inl (ValueError missing_key_message))
                 else (out @ [check_mark @ '' OPENAI_API_KEY successfully loaded.'',
                              key_emoji @ '' Starts with: '' @ take 4 k @ ''****''] @
                       (if is_main
                        then [check_mark @ '' Config file loaded and OpenAI key available for app use.'']
                        else []),
                       Inr k)))"

section \<open>app.py\<close>

text \<open>The truth value of an optional text: \<open>None\<close> and the empty text are false.\<close>

definition truthy :: "string option \<Rightarrow> bool" where
  "truthy x = (case x of None \<Rightarrow> False | Some s \<Rightarrow> s \<noteq> [])"

definition str_of :: "string option \<Rightarrow> string" where
  "str_of x = (case x of None \<Rightarrow> ''None'' | Some s \<Rightarrow> s)"

definition greeting :: message where
  "greeting = \<lparr>role = ''assistant'',
               content = ''Hi! I'' @ right_quote @
                 ''m StockGPT. Ask me about any stock ticker (e.g., AAPL, TSLA, INFY) or market trend '' @
                 bars_emoji\<rparr>"

subsection \<open>Resolving the symbol\<close>

text \<open>
  Lines 52 to 62. A first quote without a \<open>symbol\<close> entry raises a \<open>KeyError\<close>,
  which the \<open>except\<close> clause turns into no symbol.
\<close>

definition resolve_ticker :: "'c world \<Rightarrow> 'c event list \<Rightarrow> string \<Rightarrow> string option \<times> 'c event list" where
  "resolve_ticker w tr user_input =
     (let ticker = extract_ticker_from_text user_input in
      if truthy ticker then (ticker, tr)
      else
        (let tr1 = tr @ [Yf_search user_input] in
         case yf_search w tr user_input of
           Inl e \<Rightarrow> (None, tr1)
         | Inr None \<Rightarrow> (ticker, tr1)
         | Inr (Some []) \<Rightarrow> (ticker, tr1)
         | Inr (Some (None # qs)) \<Rightarrow> (None, tr1)
         | Inr (Some (Some symbol # qs)) \<Rightarrow> (Some symbol, tr1)))"

subsection \<open>Fetching the data\<close>

definition could_not_resolve :: string where
  "could_not_resolve = cross_mark @ '' Could not resolve any stock symbol from input.''"

text \<open>
  Lines 64 to 79. None of the three functions raises, so the \<open>except\<close> clause
  around them is never entered.
\<close>

definition fetch_data ::
    "'c world \<Rightarrow> 'c event list \<Rightarrow> string option \<Rightarrow>
     (string option \<times> 'c frame option \<times> string option) \<times> 'c event list" where
  "fetch_data w tr resolved_ticker =
     (if truthy resolved_ticker then
        (let rt = str_of resolved_ticker;
             tr0 = tr @ [St_spinner (''Fetching data for '' @ rt @ ''...'')]
         in case get_stock_info w tr0 rt of
              (stock_data, tr1) \<Rightarrow>
                (case get_stock_history w tr1 rt ''1y'' ''1d'' of
                   (history_df, tr2) \<Rightarrow>
                     (case get_latest_news w tr2 rt 5 of
                        (news_md, tr3) \<Rightarrow> ((Some stock_data, history_df, Some news_md), tr3))))
      else ((None, None, None), tr @ [St_warning could_not_resolve]))"

subsection \<open>The prompt and the assistant's reply\<close>

definition preamble :: string where
  "preamble =
     ''You are a helpful and careful financial assistant. Be explicit about what is an '' @
     ''opinion vs fact. Don'' @ [CHR 0x27] @ ''t give trading advice (no '' @ [CHR 0x27] @ ''buy'' @
     [CHR 0x27] @ '' or '' @ [CHR 0x27] @ ''sell'' @ [CHR 0x27] @ '' calls). '' @
     ''When uncertain, say '' @ [CHR 0x27] @ ''I don'' @ [CHR 0x27] @ ''t know'' @ [CHR 0x27] @
     '' and recommend the user verify facts.'' @ NL @ NL"

definition build_prompt :: "string \<Rightarrow> string option \<Rightarrow> string option \<Rightarrow> string option \<Rightarrow> string" where
  "build_prompt user_input resolved_ticker stock_data news_md =
     (let p0 = preamble @ ''User question: '' @ user_input @ NL @ NL;
          p1 = (if truthy resolved_ticker \<and> truthy stock_data
                then p0 @ ''Live company summary for '' @ str_of resolved_ticker @ '':'' @ NL @
                     str_of stock_data @ NL @ NL
                else p0)
      in if truthy resolved_ticker \<and> truthy news_md
         then p1 @ ''Recent headlines for '' @ str_of resolved_ticker @ '':'' @ NL @
              str_of news_md @ NL @ NL
         else p1)"

definition primary_request :: "string \<Rightarrow> chat_request" where
  "primary_request prompt =
     \<lparr>model = ''gpt-4o-mini'',
      messages = [\<lparr>role = ''system'', content = ''You are an expert stock assistant.''\<rparr>,
                  \<lparr>role = ''user'', content = prompt\<rparr>],
      max_tokens = 500,
      temperature = 2 / 10\<rparr>"

definition generation_error :: "py_exn \<Rightarrow> string \<Rightarrow> string" where
  "generation_error e traceback =
     warning_sign @ '' Error generating response from OpenAI: '' @ exn_str e @ NL @ NL @ traceback"

text \<open>Lines 93 to 106.\<close>

definition ask_assistant :: "'c world \<Rightarrow> 'c event list \<Rightarrow> string \<Rightarrow> string \<times> 'c event list" where
  "ask_assistant w tr prompt =
     (let tr1 = tr @ [Chat_create (primary_request prompt)] in
      case chat_create w tr (primary_request prompt) of
        Inr ai_response \<Rightarrow> (ai_response, tr1)
      | Inl (e, traceback) \<Rightarrow> (generation_error e traceback, tr1))"

subsection \<open>The metric tiles\<close>

text \<open>The body of \<open>safe_fmt\<close> inside its \<open>try\<close>; a text times 100 is a text, which the format code \<open>f\<close> rejects.\<close>

definition safe_fmt_body :: "pyval \<Rightarrow> string \<Rightarrow> bool \<Rightarrow> py_exn + string" where
  "safe_fmt_body x fallback is_pct =
     (case x of
        PNone \<Rightarrow> Inr fallback
      | PInt n \<Rightarrow>
         if is_pct then
           (case float_of_int (n * 100) of Inl e \<Rightarrow> Inl e | Inr f \<Rightarrow> Inr (float_2f f @ ''%''))
         else
           (case float_of_int n of Inl e \<Rightarrow> Inl e | Inr f \<Rightarrow> Inr (float_2f_grouped f))
      | PFloat x \<Rightarrow>
         if is_pct then Inr (float_2f (float_mul x 100) @ ''%'')
         else Inr (float_2f_grouped x)
      | PStr s \<Rightarrow>
         if is_pct then
           Inl (ValueError (''Unknown format code '' @ [CHR 0x27] @ ''f'' @ [CHR 0x27] @
                  '' for object of type '' @ [CHR 0x27] @ ''str'' @ [CHR 0x27]))
         else Inr s)"

definition safe_fmt :: "pyval \<Rightarrow> string \<Rightarrow> bool \<Rightarrow> string" where
  "safe_fmt x fallback is_pct =
     (case safe_fmt_body x fallback is_pct of Inl e \<Rightarrow> fallback | Inr s \<Rightarrow> s)"

text \<open>Lines 148 to 159, which run outside any \<open>try\<close>.\<close>

definition market_cap_str :: "pyval \<Rightarrow> py_exn + string" where
  "market_cap_str market_cap_raw =
     (if py_truthy market_cap_raw then
        (case market_cap_raw of
           PInt n \<Rightarrow>
            (if 10 ^ 12 \<le> n then
               (case int_truediv n (10 ^ 12) of Inl e \<Rightarrow> Inl e | Inr q \<Rightarrow> Inr (''$'' @ float_2f q @ ''T''))
             else if 10 ^ 9 \<le> n then
               (case int_truediv n (10 ^ 9) of Inl e \<Rightarrow> Inl e | Inr q \<Rightarrow> Inr (''$'' @ float_2f q @ ''B''))
             else if 10 ^ 6 \<le> n then
               (case int_truediv n (10 ^ 6) of Inl e \<Rightarrow> Inl e | Inr q \<Rightarrow> Inr (''$'' @ float_2f q @ ''M''))
             else Inr (''$'' @ int_grouped n))
         | PFloat x \<Rightarrow>
            (if float_ge x (10 ^ 12) then Inr (''$'' @ float_2f (float_div x (10 ^ 12)) @ ''T'')
             else if float_ge x (10 ^ 9) then Inr (''$'' @ float_2f (float_div x (10 ^ 9)) @ ''B'')
             else if float_ge x (10 ^ 6) then Inr (''$'' @ float_2f (float_div x (10 ^ 6)) @ ''M'')
             else Inr (''$'' @ float_grouped x))
         | PStr s \<Rightarrow>
            Inl (TypeError ([CHR 0x27] @ ''>='' @ [CHR 0x27] @ '' not supported between instances of '' @
                   [CHR 0x27] @ ''str'' @ [CHR 0x27] @ '' and '' @ [CHR 0x27] @ ''float'' @ [CHR 0x27]))
         | PNone \<Rightarrow> Inr ''N/A'')
      else Inr ''N/A'')"

text \<open>What each of the four tiles shows for the record \<open>info\<close>.\<close>

definition price_tile :: "(string \<rightharpoonup> pyval) \<Rightarrow> string" where
  "price_tile info = ''$'' @ safe_fmt (dict_get info ''currentPrice'') ''N/A'' False"

definition pe_tile :: "(string \<rightharpoonup> pyval) \<Rightarrow> string" where
  "pe_tile info = safe_fmt (dict_get info ''trailingPE'') ''N/A'' False"

definition market_cap_tile :: "(string \<rightharpoonup> pyval) \<Rightarrow> py_exn + string" where
  "market_cap_tile info = market_cap_str (dict_get info ''marketCap'')"

definition dividend_tile :: "(string \<rightharpoonup> pyval) \<Rightarrow> string" where
  "dividend_tile info = safe_fmt (dict_get info ''dividendYield'') ''0.00%'' True"

text \<open>
  A step of the page that may end the run with an uncaught exception: the
  exception if any, and the events up to there.
\<close>

definition show_metrics :: "(string \<rightharpoonup> pyval) \<Rightarrow> 'c event list \<Rightarrow> py_exn option \<times> 'c event list" where
  "show_metrics info tr =
     (let tr1 = tr @ [St_markdown (''### '' @ chart_emoji @ '' Key Financial Metrics''), St_columns 4,
                      St_metric ''Current Price'' (price_tile info),
                      St_metric ''P/E (TTM)'' (pe_tile info)]
      in case market_cap_tile info of
           Inl e \<Rightarrow> (Some e, tr1)
         | Inr cap \<Rightarrow>
            (None, tr1 @ [St_metric ''Market Cap'' cap,
                          St_metric ''Dividend Yield'' (dividend_tile info)]))"

subsection \<open>Chart, news and sentiment\<close>

definition show_chart :: "'c world \<Rightarrow> 'c frame option \<Rightarrow> 'c event list \<Rightarrow> py_exn option \<times> 'c event list" where
  "show_chart w history_df tr =
     (case history_df of
        None \<Rightarrow> (None, tr @ [St_info ''No historical price data available for charting.''])
      | Some df \<Rightarrow>
         if df_empty df
         then (None, tr @ [St_info ''No historical price data available for charting.''])
         else
           (let tr1 = tr @ [St_markdown (''### '' @ clock_emoji @ '' Price Chart (last 1 year)'')] in
            case map_of (columns df) ''Date'' of
              None \<Rightarrow> (Some (KeyError ''Date''), tr1)
            | Some ds \<Rightarrow>
               (case to_datetime w ds of
                  Inl e \<Rightarrow> (Some e, tr1)
                | Inr dates \<Rightarrow>
                   (case map_of (columns df) ''Close'' of
                      None \<Rightarrow> (Some (KeyError ''Close''), tr1)
                    | Some closes \<Rightarrow> (None, tr1 @ [St_line_chart dates closes])))))"

definition sentiment_request :: "string \<Rightarrow> string \<Rightarrow> chat_request" where
  "sentiment_request resolved_ticker news_md =
     \<lparr>model = ''gpt-4o-mini'',
      messages =
        [\<lparr>role = ''system'', content = ''You are a concise financial sentiment analyst.''\<rparr>,
         \<lparr>role = ''user'',
          content =
            ''You'' @ [CHR 0x27] @ ''re a financial sentiment analyst. Given the following news headlines for '' @
            resolved_ticker @ '', '' @
            ''reply in one short paragraph labeling the overall sentiment as Positive, Neutral, or Negative, '' @
            ''then provide 1-2 bullet points explaining why (very concise). Do NOT give trading advice.'' @
            NL @ NL @ news_md @ NL @ NL @ ''Sentiment:''\<rparr>],
      max_tokens = 200,
      temperature = 0\<rparr>"

definition show_news :: "'c world \<Rightarrow> string \<Rightarrow> string option \<Rightarrow> 'c event list \<Rightarrow> 'c event list" where
  "show_news w resolved_ticker news_md tr =
     (let low = py_lower (str_of news_md);
          tr1 = tr @ [St_markdown (''### '' @ paper_emoji @ '' Latest News''),
                      if truthy news_md \<and> \<not> startswith low ''error''
                      then St_markdown (str_of news_md)
                      else St_info ''No news found or an error occurred fetching news.'']
      in if truthy news_md \<and> \<not> startswith low ''no recent news'' \<and> \<not> startswith low ''error'' then
           (let req = sentiment_request resolved_ticker (str_of news_md);
                tr2 = tr1 @ [St_spinner ''Analyzing news sentiment with AI...''];
                tr3 = tr2 @ [Chat_create req]
            in case chat_create w tr2 req of
                 Inr sentiment_result \<Rightarrow>
                   tr3 @ [St_markdown (''**'' @ brain_emoji @ '' Sentiment analysis (AI):**''),
                          St_markdown sentiment_result]
               | Inl (e, traceback) \<Rightarrow>
                   tr3 @ [St_warning (''Could not run sentiment analysis: '' @ exn_str e)])
         else tr1)"

text \<open>Lines 113 to 203.\<close>

definition show_ticker_data ::
    "'c world \<Rightarrow> 'c event list \<Rightarrow> string option \<Rightarrow> string option \<Rightarrow> 'c frame option \<Rightarrow> string option \<Rightarrow>
     py_exn option \<times> 'c event list" where
  "show_ticker_data w tr resolved_ticker stock_data history_df news_md =
     (if truthy resolved_ticker then
        (let rt = str_of resolved_ticker;
             tr1 = tr @ [St_markdown ''---'', St_subheader (''Data for '' @ rt),
                         if truthy stock_data then St_markdown (str_of stock_data)
                         else St_info ''No summary available.''];
             tr2 = tr1 @ [Yf_info rt];
             info = (case ticker_info w tr1 rt of
                       Inl e \<Rightarrow> Map.empty
                     | Inr None \<Rightarrow> Map.empty
                     | Inr (Some d) \<Rightarrow> d)
         in case show_metrics info tr2 of
              (Some e, tr3) \<Rightarrow> (Some e, tr3)
            | (None, tr3) \<Rightarrow>
               (case show_chart w history_df tr3 of
                  (Some e, tr4) \<Rightarrow> (Some e, tr4)
                | (None, tr4) \<Rightarrow> (None, show_news w rt news_md tr4)))
      else (None, tr))"

subsection \<open>One user turn, and one run of the script\<close>

record 'c run =
  stdout :: "string list"
  session :: "message list option"
  trace :: "'c event list"
  uncaught :: "py_exn option"

text \<open>Lines 45 to 203, for a user input that is not empty: the message log and the events after it, and the exception that ended the run if one did.\<close>

definition handle_input ::
    "'c world \<Rightarrow> message list \<Rightarrow> 'c event list \<Rightarrow> string \<Rightarrow> message list \<times> 'c event list \<times> py_exn option" where
  "handle_input w msgs tr user_input =
     (let msgs1 = msgs @ [\<lparr>role = ''user'', content = user_input\<rparr>];
          tr1 = tr @ [St_chat_message ''user'' user_input]
      in case resolve_ticker w tr1 user_input of
           (resolved_ticker, tr2) \<Rightarrow>
             (case fetch_data w tr2 resolved_ticker of
                ((stock_data, history_df, news_md), tr3) \<Rightarrow>
                  (case ask_assistant w tr3 (build_prompt user_input resolved_ticker stock_data news_md) of
                     (ai_response, tr4) \<Rightarrow>
                       (let msgs2 = msgs1 @ [\<lparr>role = ''assistant'', content = ai_response\<rparr>];
                            tr5 = tr4 @ [St_chat_message ''assistant'' ai_response]
                        in case show_ticker_data w tr5 resolved_ticker stock_data history_df news_md of
                             (exc, tr6) \<Rightarrow> (msgs2, tr6, exc)))))"

text \<open>
  One run of the script: the import of \<open>config\<close>, the client, the session's
  message log (absent before the first run) and the user input of this run, if any.
\<close>

definition app_script ::
    "'c world \<Rightarrow> (string \<rightharpoonup> string) \<Rightarrow> message list option \<Rightarrow> string option \<Rightarrow> 'c run" where
  "app_script w environ state user_input =
     (case config w environ False of
        (out, Inl e) \<Rightarrow> \<lparr>stdout = out, session = state, trace = [], uncaught = Some e\<rparr>
      | (out, Inr key) \<Rightarrow>
         (let tr0 = [St_set_page_config ''StockGPT - AI Stock Assistant'' chart_emoji,
                     St_title (chart_emoji @ '' StockGPT '' @ en_dash @ '' AI Stock Chat Assistant'')]
          in case openai_init w key of
               Some e \<Rightarrow>
                 \<lparr>stdout = out, session = state,
                  trace = tr0 @ [St_error (warning_sign @ '' Error initializing OpenAI client: '' @ exn_str e)],
                  uncaught = None\<rparr>
             | None \<Rightarrow>
                (let msgs = (case state of None \<Rightarrow> [greeting] | Some ms \<Rightarrow> ms);
                     tr1 = tr0 @ map (\<lambda>m. St_chat_message (role m) (content m)) msgs
                 in if truthy user_input then
                      (case handle_input w msgs tr1 (str_of user_input) of
                         (msgs', tr', exc) \<Rightarrow>
                           \<lparr>stdout = out, session = Some msgs', trace = tr', uncaught = exc\<rparr>)
                    else \<lparr>stdout = out, session = Some msgs, trace = tr1, uncaught = None\<rparr>)))"

text \<open>
  The resolver has no candidate: its search raised, the result has no quotes,
  or the first quote has no symbol (the \<open>KeyError\<close> of line 60) or an empty one.
\<close>

definition no_candidate :: "py_exn + string option list option \<Rightarrow> bool" where
  "no_candidate r =
     (case r of
        Inl e \<Rightarrow> True
      | Inr None \<Rightarrow> True
      | Inr (Some []) \<Rightarrow> True
      | Inr (Some (None # qs)) \<Rightarrow> True
      | Inr (Some (Some symbol # qs)) \<Rightarrow> symbol = [])"

section \<open>Example worlds\<close>

text \<open>A provider that knows nothing and a model that answers.\<close>

definition quiet_world :: "string world" where
  "quiet_world =
     \<lparr>yf_ticker = (\<lambda>tr s. None),
      yf_search = (\<lambda>tr q. Inr None),
      yf_info = (\<lambda>tr t. Inr None),
      yf_history = (\<lambda>tr t p i. Inr None),
      yf_news = (\<lambda>tr t. Inr None),
      chat_create = (\<lambda>tr r. Inr ''Which company do you mean?''),
      to_datetime = Inr,
      load_dotenv = (\<lambda>env. (False, env)),
      openai_init = (\<lambda>k. None)\<rparr>"

text \<open>Every call that goes over the network raises.\<close>

definition offline_world :: "string world" where
  "offline_world =
     \<lparr>yf_ticker = (\<lambda>tr s. None),
      yf_search = (\<lambda>tr q. Inl (ProviderError ''network down'')),
      yf_info = (\<lambda>tr t. Inl (ProviderError ''network down'')),
      yf_history = (\<lambda>tr t p i. Inl (ProviderError ''network down'')),
      yf_news = (\<lambda>tr t. Inl (ProviderError ''network down'')),
      chat_create = (\<lambda>tr r. Inl (ProviderError ''network down'', ''Traceback (most recent call last)'')),
      to_datetime = Inr,
      load_dotenv = (\<lambda>env. (False, env)),
      openai_init = (\<lambda>k. None)\<rparr>"

definition long_title :: string where
  "long_title = replicate 301 (CHR ''x'')"

definition headline1 :: news_item where
  "headline1 = [''title'' \<mapsto> PStr ''Shares rise'', ''publisher'' \<mapsto> PStr ''Wire'',
                ''link'' \<mapsto> PStr ''http://n/1'']"

definition headline2 :: news_item where
  "headline2 = [''title'' \<mapsto> PStr long_title, ''link'' \<mapsto> PStr ''http://n/2'']"

definition headline3 :: news_item where
  "headline3 = [''publisher'' \<mapsto> PStr ''Desk'']"

definition headlines :: "news_item list" where
  "headlines = [headline1, headline2, headline3]"

definition news_world :: "string world" where
  "news_world = quiet_world\<lparr>yf_news := (\<lambda>tr t. Inr (Some headlines))\<rparr>"

text \<open>A provider whose news items come with a title entry that holds \<open>None\<close>.\<close>

definition null_title_world :: "string world" where
  "null_title_world =
     quiet_world\<lparr>yf_news := (\<lambda>tr t. Inr (Some [[''title'' \<mapsto> PNone, ''publisher'' \<mapsto> PStr ''Wire'']]))\<rparr>"

text \<open>A ticker object whose \<open>news\<close> attribute raises \<open>AttributeError\<close>.\<close>

definition no_news_attribute_world :: "string world" where
  "no_news_attribute_world =
     quiet_world\<lparr>yf_news := (\<lambda>tr t. Inl (AttributeError ''news''))\<rparr>"

definition daily_frame :: "string frame" where
  "daily_frame =
     \<lparr>index_name = Some ''Date'',
      index = [Val ''2024-01-02'', Val ''2024-01-03''],
      columns = [(''Open'', [Val ''187'', Val ''184'']), (''Close'', [Val ''185'', Val ''184''])]\<rparr>"

definition history_world :: "string world" where
  "history_world = quiet_world\<lparr>yf_history := (\<lambda>tr t p i. Inr (Some daily_frame))\<rparr>"

text \<open>A frame of two rows whose index carries the name of one of its columns.\<close>

definition clash_frame :: "string frame" where
  "clash_frame = daily_frame\<lparr>index_name := Some ''Close''\<rparr>"

definition clash_world :: "string world" where
  "clash_world = quiet_world\<lparr>yf_history := (\<lambda>tr t p i. Inr (Some clash_frame))\<rparr>"

text \<open>A provider that knows one company.\<close>

definition apple_info :: "string \<rightharpoonup> pyval" where
  "apple_info =
     [''shortName'' \<mapsto> PStr ''Apple Inc.'',
      ''longName'' \<mapsto> PStr ''Apple Inc.'',
      ''symbol'' \<mapsto> PStr ''AAPL'',
      ''sector'' \<mapsto> PStr ''Technology'',
      ''industry'' \<mapsto> PStr ''Consumer Electronics'',
      ''currentPrice'' \<mapsto> PFloat (Fin (18984 / 100)),
      ''marketCap'' \<mapsto> PInt 2950000000000,
      ''longBusinessSummary'' \<mapsto> PStr ''Apple Inc. designs smartphones.'']"

definition apple_world :: "string world" where
  "apple_world =
     quiet_world\<lparr>yf_info := (\<lambda>tr s. if s = ''AAPL'' then Inr (Some apple_info) else Inr None),
                 yf_search := (\<lambda>tr q. Inr (Some [Some ''AAPL'']))\<rparr>"


section \<open>Properties of the extractor\<close>

lemma is_AZ_is_word: "is_AZ c \<Longrightarrow> is_word c"
  by (auto simp: is_AZ_def is_word_def Let_def)

lemma upper_char_AZ: "is_AZ c \<Longrightarrow> upper_char c = [c]"
  by (auto simp: is_AZ_def upper_char_def Let_def)

lemma py_upper_AZ: "list_all is_AZ s \<Longrightarrow> py_upper s = s"
  by (induction s) (auto simp: py_upper_def upper_char_AZ)

lemma dollar_not_AZ: "\<not> is_AZ (CHR ''$'')"
  by (simp add: is_AZ_def)

lemma takeWhile_AZ_group:
  assumes "list_all is_AZ l" "length l \<le> 5" "case rest of [] \<Rightarrow> True | c # _ \<Rightarrow> \<not> is_AZ c"
  shows "takeWhile is_AZ (take 5 (l @ rest)) = l"
proof -
  have "takeWhile is_AZ (take 5 (l @ rest)) = takeWhile is_AZ (l @ take (5 - length l) rest)"
    using assms(2) by simp
  also have "\<dots> = l @ takeWhile is_AZ (take (5 - length l) rest)"
    using assms(1) by (simp add: takeWhile_append2 list_all_iff)
  also have "takeWhile is_AZ (take (5 - length l) rest) = []"
    using assms(3) by (cases rest; cases "5 - length l") auto
  finally show ?thesis by simp
qed

lemma upper_group_boundary:
  assumes "dollar_ticker l post"
  shows "upper_group word_boundary (l @ post) = Some l"
proof -
  from assms have l: "l \<noteq> []" "length l \<le> 5" "list_all is_AZ l"
    and post: "case post of [] \<Rightarrow> True | c # _ \<Rightarrow> \<not> is_word c"
    by (auto simp: dollar_ticker_def)
  have post': "case post of [] \<Rightarrow> True | c # _ \<Rightarrow> \<not> is_AZ c"
    using post is_AZ_is_word by (cases post) auto
  have n: "length (takeWhile is_AZ (take 5 (l @ post))) = length l"
    using takeWhile_AZ_group[OF l(3) l(2) post'] by simp
  obtain k where k: "length l = Suc k" using l(1) by (cases l) auto
  have lastw: "is_word (l ! k)"
    using l(3) k by (auto simp: list_all_length intro: is_AZ_is_word)
  have b: "word_boundary (Some ((l @ post) ! k)) (drop (Suc k) (l @ post))"
    using post lastw k by (cases post) (auto simp: word_boundary_def nth_append)
  have "rev [1..<Suc (Suc k)] = Suc k # rev [1..<Suc k]" by simp
  then show ?thesis
    unfolding upper_group_def n k Let_def using b k by simp
qed

lemma upper_group_sound:
  assumes "upper_group cont s = Some g"
  shows "g \<noteq> [] \<and> length g \<le> 5 \<and> list_all is_AZ g \<and> (\<exists>rest. s = g @ rest \<and> cont (Some (last g)) rest)"
proof -
  define n where "n = length (takeWhile is_AZ (take 5 s))"
  from assms obtain k where f: "find (\<lambda>k. cont (Some (s ! (k - 1))) (drop k s)) (rev [1..<Suc n]) = Some k"
    and g: "g = take k s"
    by (auto simp: upper_group_def n_def Let_def split: option.splits)
  define xs where "xs = rev [1..<Suc n]"
  from f obtain i where i: "i < length xs" "cont (Some (s ! (xs ! i - 1))) (drop (xs ! i) s)" "k = xs ! i"
    unfolding find_Some_iff xs_def[symmetric] by blast
  then have "k \<in> set xs" by simp
  then have k: "1 \<le> k" "k \<le> n" unfolding xs_def by auto
  have c: "cont (Some (s ! (k - 1))) (drop k s)" using i by simp
  have n5: "n \<le> 5" unfolding n_def
    by (rule order_trans[OF length_takeWhile_le]) simp
  have nlen: "n \<le> length s" unfolding n_def
    by (rule order_trans[OF length_takeWhile_le]) simp
  have pre: "take n s = takeWhile is_AZ (take 5 s)"
  proof -
    have "takeWhile is_AZ (take 5 s) = take n (take 5 s)"
      unfolding n_def by (metis takeWhile_eq_take)
    also have "\<dots> = take n s" using n5 by (simp add: min_def)
    finally show ?thesis by simp
  qed
  have "list_all is_AZ (take n s)"
    unfolding pre by (simp add: list_all_iff) (meson set_takeWhileD)
  moreover have "set (take k s) \<subseteq> set (take n s)"
    using k by (simp add: set_take_subset_set_take)
  ultimately have az: "list_all is_AZ g" using g by (auto simp: list_all_iff)
  have len: "length g = k" using g k nlen by simp
  have gne: "g \<noteq> []" using len k by auto
  have "last g = g ! (k - 1)" using last_conv_nth[OF gne] len by simp
  also have "\<dots> = s ! (k - 1)" using g k by simp
  finally have lastg: "last g = s ! (k - 1)" .
  show ?thesis using k n5 len az lastg c g
    by (auto intro!: exI[of _ "drop k s"])
qed

lemma match_dollar_sound:
  assumes "match_dollar prev s = Some g"
  shows "\<exists>rest. s = ''$'' @ g @ rest \<and> dollar_ticker g rest"
proof -
  from assms obtain cs where s: "s = CHR ''$'' # cs" and u: "upper_group word_boundary cs = Some g"
    by (auto simp: match_dollar_def split: list.splits if_splits)
  from upper_group_sound[OF u] obtain rest where
    g: "g \<noteq> []" "length g \<le> 5" "list_all is_AZ g" "cs = g @ rest" "word_boundary (Some (last g)) rest"
    by blast
  have "is_word (last g)" using g(1,3) by (auto simp: list_all_iff intro: is_AZ_is_word)
  then have "case rest of [] \<Rightarrow> True | c # _ \<Rightarrow> \<not> is_word c"
    using g(5) by (cases rest) (auto simp: word_boundary_def)
  then show ?thesis using s g by (auto simp: dollar_ticker_def)
qed

lemma match_dollar_here:
  assumes "dollar_ticker l post"
  shows "match_dollar prev (''$'' @ l @ post) = Some l"
  using upper_group_boundary[OF assms] by (simp add: match_dollar_def)

lemma match_dollar_in_prefix:
  assumes "match_dollar prev (c # cs @ ''$'' @ z) = Some g"
  shows "has_dollar_ticker (c # cs)"
proof -
  from match_dollar_sound[OF assms] obtain rest where
    e: "c # cs @ ''$'' @ z = ''$'' @ g @ rest" and d: "dollar_ticker g rest" by blast
  from e have c: "c = CHR ''$''" and e': "cs @ ''$'' @ z = g @ rest" by auto
  from d have az: "list_all is_AZ g" by (simp add: dollar_ticker_def)
  have "\<exists>r. cs = g @ r"
  proof -
    from e' consider (a) u where "cs = g @ u" | (b) u where "u \<noteq> []" "cs @ u = g" "''$'' @ z = u @ rest"
      by (auto simp: append_eq_append_conv2) metis+
    then show ?thesis
    proof cases
      case a then show ?thesis by blast
    next
      case b
      then have "hd u = CHR ''$''" by (cases u) auto
      with b have "CHR ''$'' \<in> set g" by (cases u) auto
      with az dollar_not_AZ show ?thesis by (auto simp: list_all_iff)
    qed
  qed
  then obtain r where r: "cs = g @ r" by blast
  with e' have rest: "rest = r @ ''$'' @ z" by simp
  have "dollar_ticker g r"
    using d rest by (cases r) (auto simp: dollar_ticker_def is_word_def)
  then show ?thesis unfolding has_dollar_ticker_def using c r
    by (intro exI[of _ "[]"] exI[of _ g] exI[of _ r]) simp
qed

lemma has_dollar_ticker_Cons: "has_dollar_ticker cs \<Longrightarrow> has_dollar_ticker (c # cs)"
  unfolding has_dollar_ticker_def
  by (metis append_Cons)

lemma re_search_dollar_leftmost:
  assumes "dollar_ticker l post" "\<not> has_dollar_ticker pre"
  shows "re_search_from match_dollar prev (pre @ ''$'' @ l @ post) = Some l"
  using assms(2)
proof (induction pre arbitrary: prev)
  case Nil
  show ?case using match_dollar_here[OF assms(1), of prev] by simp
next
  case (Cons c cs)
  have "match_dollar prev (c # cs @ ''$'' @ l @ post) = None"
  proof (cases "match_dollar prev (c # cs @ ''$'' @ l @ post)")
    case (Some g)
    from match_dollar_in_prefix[OF Some] Cons.prems show ?thesis by simp
  qed simp
  moreover have "\<not> has_dollar_ticker cs" using Cons.prems has_dollar_ticker_Cons by blast
  ultimately show ?case using Cons.IH by simp
qed

text \<open>
  C4. The first rule of the extractor: when the text holds a dollar sign followed
  by one to five capitals that end at a word boundary, the extractor returns these
  capitals, whatever bare capital tokens the text holds besides. Where the text
  has several such occurrences the search takes the leftmost one, so \<open>pre\<close>, the
  text before the occurrence, holds none. For \<open>$AAPL vs TSLA\<close> the result is
  \<open>AAPL\<close>.
\<close>

theorem extract_dollar_rule:
  assumes "text = pre @ ''$'' @ letters @ post" "dollar_ticker letters post" "\<not> has_dollar_ticker pre"
  shows "extract_ticker_from_text text = Some letters"
proof -
  have "re_search match_dollar text = Some letters"
    unfolding re_search_def assms(1) by (rule re_search_dollar_leftmost[OF assms(2,3)])
  moreover have "py_upper letters = letters"
    using assms(2) by (simp add: dollar_ticker_def py_upper_AZ)
  ultimately show ?thesis by (simp add: extract_ticker_from_text_def)
qed

lemma no_dollar_ticker_Nil: "\<not> has_dollar_ticker []"
  by (simp add: has_dollar_ticker_def)

text \<open>The rule at \<open>$AAPL vs TSLA\<close>, where nothing precedes the dollar sign.\<close>

theorem extract_dollar_rule_witness:
  "extract_ticker_from_text ''$AAPL vs TSLA'' = Some ''AAPL''"
  using extract_dollar_rule[of "''$AAPL vs TSLA''" "[]" "''AAPL''" "'' vs TSLA''"]
  by (simp add: dollar_ticker_def is_AZ_def is_word_def no_dollar_ticker_Nil)


section \<open>Facts about the float model\<close>

lemma round_half_even_of_int: "round_half_even (of_int k) = k"
  by (simp add: round_half_even_def)

lemma round_half_even_cases:
  "round_half_even q = \<lfloor>q\<rfloor> \<and> q - of_int \<lfloor>q\<rfloor> \<le> 1 / 2 \<or>
   round_half_even q = \<lfloor>q\<rfloor> + 1 \<and> 1 / 2 \<le> q - of_int \<lfloor>q\<rfloor>"
  by (auto simp: round_half_even_def Let_def)

lemma round_half_even_bounds:
  "\<bar>of_int (round_half_even q) - q\<bar> \<le> 1 / 2"
proof -
  have a: "of_int \<lfloor>q\<rfloor> \<le> q" "q < of_int \<lfloor>q\<rfloor> + 1" by linarith+
  from round_half_even_cases[of q] show ?thesis
  proof
    assume c: "round_half_even q = \<lfloor>q\<rfloor> \<and> q - of_int \<lfloor>q\<rfloor> \<le> 1 / 2"
    then have "of_int (round_half_even q) = (of_int \<lfloor>q\<rfloor> :: rat)" by simp
    with a c show ?thesis by linarith
  next
    assume c: "round_half_even q = \<lfloor>q\<rfloor> + 1 \<and> 1 / 2 \<le> q - of_int \<lfloor>q\<rfloor>"
    then have "of_int (round_half_even q) = (of_int \<lfloor>q\<rfloor> + 1 :: rat)" by simp
    with a c show ?thesis by linarith
  qed
qed

lemma bit_length_le: "n < 2 ^ k \<Longrightarrow> bit_length n \<le> int k"
proof (induction n arbitrary: k rule: bit_length.induct)
  case (1 n)
  show ?case
  proof (cases "n \<le> 0")
    case True
    then show ?thesis by (simp add: bit_length.simps)
  next
    case False
    then obtain j where k: "k = Suc j" using "1.prems" by (cases k) auto
    have "n div 2 < 2 ^ j" using "1.prems" k by auto
    from "1.IH"[OF False this] show ?thesis
      using False k by (subst bit_length.simps) simp
  qed
qed

lemma bit_length_nonneg: "0 \<le> bit_length m"
  by (induction m rule: bit_length.induct) (subst bit_length.simps, simp)

lemma bit_length_pos: "0 < n \<Longrightarrow> 1 \<le> bit_length n"
  using bit_length_nonneg[of "n div 2"] by (subst bit_length.simps) simp

lemma bit_length_lower: "0 < n \<Longrightarrow> 2 ^ nat (bit_length n - 1) \<le> n"
proof (induction n rule: bit_length.induct)
  case (1 n)
  show ?case
  proof (cases "n div 2 \<le> 0")
    case True
    then have "n = 1" using "1.prems" by linarith
    then show ?thesis by (simp add: bit_length.simps)
  next
    case False
    then have h: "0 < n div 2" by simp
    have ih: "2 ^ nat (bit_length (n div 2) - 1) \<le> n div 2"
      using "1.IH" "1.prems" h by simp
    have b: "bit_length n = 1 + bit_length (n div 2)"
      using "1.prems" by (subst bit_length.simps) simp
    have p: "1 \<le> bit_length (n div 2)" using h by (rule bit_length_pos)
    have "nat (bit_length n - 1) = Suc (nat (bit_length (n div 2) - 1))"
      unfolding b using p by simp
    then have "(2::int) ^ nat (bit_length n - 1) = 2 * 2 ^ nat (bit_length (n div 2) - 1)"
      by simp
    also have "\<dots> \<le> 2 * (n div 2)" using ih by simp
    also have "\<dots> \<le> n" by simp
    finally show ?thesis .
  qed
qed

lemma bit_length_1: "bit_length 1 = 1"
  by (simp add: bit_length.simps)

lemma ilog2_of_int:
  assumes "0 < n"
  shows "ilog2 (of_int n) = bit_length n - 1"
proof -
  have p: "1 \<le> bit_length n" using assms by (rule bit_length_pos)
  have "(2::rat) ^ nat (bit_length n - 1) \<le> of_int n"
    using bit_length_lower[OF assms]
    by (metis of_int_le_iff of_int_numeral of_int_power)
  then have "pow2 (bit_length n - 1) \<le> of_int n"
    using p by (simp add: pow2_def)
  then show ?thesis
    by (simp add: ilog2_def quotient_of_int bit_length_1 Let_def)
qed

lemma ilog2_of_int_le:
  assumes "0 < n" "n < 2 ^ 53"
  shows "ilog2 (of_int n) \<le> 52" "- 1 \<le> ilog2 (of_int n)"
  using bit_length_le[of n 53] bit_length_pos[of n] assms by (simp_all add: ilog2_of_int)

lemma round_binary64_of_int:
  assumes "\<bar>n\<bar> < 2 ^ 53"
  shows "round_binary64 (of_int n) = of_int n"
proof (cases "n = 0")
  case True
  then show ?thesis by (simp add: round_binary64_def)
next
  case False
  define e where "e = max (ilog2 \<bar>of_int n\<bar>) (- 1022)"
  have abs: "\<bar>of_int n :: rat\<bar> = of_int \<bar>n\<bar>" by simp
  have "0 < \<bar>n\<bar>" using False by simp
  from ilog2_of_int_le[OF this assms] have e: "e \<le> 52" "- 1 \<le> e"
    unfolding e_def abs by auto
  define k where "k = nat (52 - e)"
  have u: "pow2 (e - 52) = 1 / 2 ^ k"
    using e by (auto simp: pow2_def k_def)
  have "of_int n / pow2 (e - 52) = (of_int (n * 2 ^ k) :: rat)"
    unfolding u by simp
  then have "round_half_even (of_int n / pow2 (e - 52)) = n * 2 ^ k"
    by (simp only: round_half_even_of_int)
  then have "of_int (round_half_even (of_int n / pow2 (e - 52))) * pow2 (e - 52) = (of_int n :: rat)"
    unfolding u by simp
  then show ?thesis
    using False unfolding round_binary64_def e_def by (simp add: Let_def)
qed

lemma pow2_pos: "0 < pow2 e"
  by (simp add: pow2_def)

lemma pow2_le_of_int:
  assumes "0 < n"
  shows "pow2 (max (ilog2 (of_int n)) (- 1022) - 52) \<le> of_int n"
proof -
  have p: "1 \<le> bit_length n" using assms by (rule bit_length_pos)
  have m: "max (ilog2 (of_int n)) (- 1022) = bit_length n - 1"
    using p by (simp add: ilog2_of_int[OF assms])
  have low: "(2::rat) ^ nat (bit_length n - 1) \<le> of_int n"
    using bit_length_lower[OF assms]
    by (metis of_int_le_iff of_int_numeral of_int_power)
  show ?thesis
  proof (cases "53 \<le> bit_length n")
    case True
    then have "pow2 (bit_length n - 1 - 52) = 2 ^ nat (bit_length n - 53)"
      by (simp add: pow2_def)
    also have "\<dots> \<le> (2::rat) ^ nat (bit_length n - 1)"
      by (rule power_increasing) (use True in auto)
    also note low
    finally show ?thesis unfolding m .
  next
    case False
    then have "pow2 (bit_length n - 1 - 52) = 1 / 2 ^ nat (53 - bit_length n)"
      by (simp add: pow2_def)
    also have "\<dots> \<le> (1::rat)" by simp
    also have "\<dots> \<le> of_int n" using assms by simp
    finally show ?thesis unfolding m .
  qed
qed

lemma round_binary64_of_int_bound:
  "\<bar>round_binary64 (of_int n)\<bar> \<le> 2 * \<bar>of_int n\<bar>"
proof (cases "n = 0")
  case True
  then show ?thesis by (simp add: round_binary64_def)
next
  case False
  define q :: rat where "q = of_int n"
  define u where "u = pow2 (max (ilog2 \<bar>q\<bar>) (- 1022) - 52)"
  have u0: "0 < u" unfolding u_def by (rule pow2_pos)
  have "0 < \<bar>n\<bar>" using False by simp
  from pow2_le_of_int[OF this] have ub: "u \<le> \<bar>q\<bar>"
    unfolding u_def q_def by simp
  have r: "round_binary64 q = of_int (round_half_even (q / u)) * u"
    using False unfolding round_binary64_def u_def q_def by (simp add: Let_def)
  have "\<bar>of_int (round_half_even (q / u)) - q / u\<bar> \<le> 1 / 2"
    by (rule round_half_even_bounds)
  then have "\<bar>of_int (round_half_even (q / u)) - q / u\<bar> * u \<le> 1 / 2 * u"
    using u0 by (simp add: mult_right_mono)
  moreover have "\<bar>of_int (round_half_even (q / u)) - q / u\<bar> * u = \<bar>round_binary64 q - q\<bar>"
  proof -
    have "(of_int (round_half_even (q / u)) - q / u) * u = round_binary64 q - q"
      unfolding r using u0 by (simp add: algebra_simps)
    then show ?thesis using u0 by (metis abs_mult abs_of_pos)
  qed
  ultimately have "\<bar>round_binary64 q - q\<bar> \<le> u / 2" by simp
  then have "\<bar>round_binary64 q\<bar> \<le> \<bar>q\<bar> + u / 2" by linarith
  also have "\<dots> \<le> 2 * \<bar>q\<bar>" using ub u0 by linarith
  finally show ?thesis unfolding q_def .
qed

lemma float_of_int_converts:
  assumes "\<bar>n\<bar> < 2 ^ 1023"
  shows "float_of_int n = Inr (Fin (round_binary64 (of_int n)))"
proof -
  have "\<bar>of_int n :: rat\<bar> < 2 ^ 1023"
    using assms by (metis (mono_tags) of_int_abs of_int_less_iff of_int_numeral of_int_power)
  then have "2 * \<bar>of_int n :: rat\<bar> < 2 ^ 1024" by simp
  with round_binary64_of_int_bound[of n] have "\<bar>round_binary64 (of_int n)\<bar> < 2 ^ 1024"
    by (rule le_less_trans)
  then show ?thesis by (simp add: float_of_int_def Let_def)
qed

lemma float_of_int_exact:
  assumes "\<bar>n\<bar> < 2 ^ 53"
  shows "float_of_int n = Inr (Fin (of_int n))"
proof -
  have "\<bar>n\<bar> < 2 ^ 1023" using assms by (rule less_trans) simp
  from float_of_int_converts[OF this] show ?thesis
    by (simp add: round_binary64_of_int[OF assms])
qed

lemma norm_float_of_int:
  assumes "\<bar>n\<bar> < 2 ^ 53"
  shows "norm_float (Fin (of_int n)) = Fin (of_int n)"
proof -
  have "float_of_int n = Inr (Fin (of_int n))" using assms by (rule float_of_int_exact)
  then have b: "\<not> 2 ^ 1024 \<le> \<bar>of_int n :: rat\<bar>"
    by (auto simp: float_of_int_def Let_def round_binary64_of_int[OF assms] split: if_splits)
  then show ?thesis
    by (auto simp: norm_float_def Let_def round_binary64_of_int[OF assms])
qed

lemma two_digits_0: "two_digits 0 = ''00''"
  by code_simp

lemma fmt_2f_of_int: "fmt_2f (of_int n) = int_str n @ ''.00''"
proof -
  have "\<bar>of_int n :: rat\<bar> * 100 = of_int (\<bar>n\<bar> * 100)" by simp
  then have r: "round_half_even (\<bar>of_int n :: rat\<bar> * 100) = \<bar>n\<bar> * 100"
    by (simp only: round_half_even_of_int)
  have d: "\<bar>n\<bar> * 100 div 100 = \<bar>n\<bar>" "\<bar>n\<bar> * 100 mod 100 = 0" by simp_all
  show ?thesis
    unfolding fmt_2f_def r Let_def d by (auto simp: int_str_def two_digits_0)
qed

lemma float_2f_of_int:
  assumes "\<bar>n\<bar> < 2 ^ 53"
  shows "float_2f (Fin (of_int n)) = int_str n @ ''.00''"
  by (simp add: float_2f_def norm_float_of_int[OF assms] fmt_2f_of_int)

lemma fmt_small:
  assumes "\<bar>n\<bar> < 10 ^ 6"
  shows "fmt (PInt n) = Inr (''$'' @ int_str n @ ''.00'')"
proof -
  have b: "\<bar>n\<bar> < 2 ^ 53" using assms by (rule less_trans) simp
  from float_of_int_exact[OF b] float_2f_of_int[OF b] assms show ?thesis
    by (simp add: fmt_def)
qed

lemma float_ge_truthy: "float_ge x c \<Longrightarrow> 0 < c \<Longrightarrow> float_truthy x"
  by (auto simp: float_ge_def float_truthy_def split: pyfloat.splits)

lemma pow2_powi: "pow2 e = 2 powi e"
  by (simp add: pow2_def power_int_def power_one_over inverse_eq_divide)

lemma pow2_mono: "a \<le> b \<Longrightarrow> pow2 a \<le> pow2 b"
  by (simp add: pow2_powi power_int_increasing)

lemma pow2_diff: "pow2 (a - b) = pow2 a / pow2 b"
  by (simp add: pow2_powi power_int_diff)

lemma bit_length_upper: "0 \<le> n \<Longrightarrow> n < 2 ^ nat (bit_length n)"
proof (induction n rule: bit_length.induct)
  case (1 n)
  show ?case
  proof (cases "n \<le> 0")
    case True
    then show ?thesis using "1.prems" by (simp add: bit_length.simps)
  next
    case False
    then have ih: "n div 2 < 2 ^ nat (bit_length (n div 2))"
      using "1.IH" by simp
    have b: "bit_length n = 1 + bit_length (n div 2)"
      using False by (subst bit_length.simps) simp
    have "nat (bit_length n) = Suc (nat (bit_length (n div 2)))"
      unfolding b using bit_length_nonneg[of "n div 2"] by simp
    then have "(2::int) ^ nat (bit_length n) = 2 * 2 ^ nat (bit_length (n div 2))" by simp
    moreover have "n < 2 * (n div 2 + 1)" by presburger
    ultimately show ?thesis using ih by linarith
  qed
qed

lemma pow2_ilog2_le:
  assumes "0 < q"
  shows "pow2 (ilog2 q) \<le> q"
proof -
  obtain a b where ab: "quotient_of q = (a, b)" by (cases "quotient_of q")
  have b0: "0 < b" using ab quotient_of_denom_pos by blast
  have q: "q = of_int a / of_int b" using ab by (rule quotient_of_div)
  have a0: "0 < a" using assms b0 unfolding q by (simp add: zero_less_divide_iff)
  define e where "e = bit_length a - bit_length b"
  show ?thesis
  proof (cases "pow2 e \<le> q")
    case True
    then show ?thesis by (simp add: ilog2_def ab e_def)
  next
    case False
    have la: "pow2 (bit_length a - 1) \<le> of_int a"
    proof -
      have "(2::rat) ^ nat (bit_length a - 1) \<le> of_int a"
        using bit_length_lower[OF a0]
        by (metis of_int_le_iff of_int_numeral of_int_power)
      then show ?thesis using bit_length_pos[OF a0] by (simp add: pow2_def)
    qed
    have ub: "of_int b \<le> pow2 (bit_length b)"
    proof -
      have "b < 2 ^ nat (bit_length b)" using b0 by (intro bit_length_upper) simp
      then have "of_int b \<le> (2::rat) ^ nat (bit_length b)"
        by (metis less_imp_le of_int_le_iff of_int_numeral of_int_power)
      then show ?thesis using bit_length_nonneg[of b] by (simp add: pow2_def)
    qed
    have "pow2 (e - 1) = pow2 (bit_length a - 1) / pow2 (bit_length b)"
      unfolding e_def by (simp add: pow2_diff[symmetric] algebra_simps)
    also have "\<dots> \<le> of_int a / pow2 (bit_length b)"
      using la pow2_pos[of "bit_length b"] by (simp add: divide_right_mono)
    also have "\<dots> \<le> of_int a / of_int b"
      using ub a0 b0 by (simp add: divide_left_mono)
    finally have "pow2 (e - 1) \<le> q" unfolding q .
    then show ?thesis using False by (simp add: ilog2_def ab e_def)
  qed
qed

lemma ulp_le:
  assumes "pow2 (- 1074) \<le> \<bar>q\<bar>"
  shows "pow2 (max (ilog2 \<bar>q\<bar>) (- 1022) - 52) \<le> \<bar>q\<bar>"
proof (cases "- 1022 \<le> ilog2 \<bar>q\<bar>")
  case True
  have q0: "0 < \<bar>q\<bar>" using assms pow2_pos[of "- 1074"] by linarith
  have "pow2 (max (ilog2 \<bar>q\<bar>) (- 1022) - 52) \<le> pow2 (ilog2 \<bar>q\<bar>)"
    using True by (intro pow2_mono) simp
  also have "\<dots> \<le> \<bar>q\<bar>" using q0 by (rule pow2_ilog2_le)
  finally show ?thesis .
next
  case False
  then have "max (ilog2 \<bar>q\<bar>) (- 1022) - 52 = - 1074" by simp
  then show ?thesis using assms by simp
qed

lemma round_binary64_error:
  assumes "q \<noteq> 0"
  shows "\<bar>round_binary64 q - q\<bar> \<le> pow2 (max (ilog2 \<bar>q\<bar>) (- 1022) - 52) / 2"
proof -
  define u where "u = pow2 (max (ilog2 \<bar>q\<bar>) (- 1022) - 52)"
  have u0: "0 < u" unfolding u_def by (rule pow2_pos)
  have r: "round_binary64 q = of_int (round_half_even (q / u)) * u"
    using assms unfolding round_binary64_def u_def by (simp add: Let_def)
  have "\<bar>of_int (round_half_even (q / u)) - q / u\<bar> \<le> 1 / 2"
    by (rule round_half_even_bounds)
  then have "\<bar>of_int (round_half_even (q / u)) - q / u\<bar> * u \<le> 1 / 2 * u"
    using u0 by (simp add: mult_right_mono)
  moreover have "\<bar>of_int (round_half_even (q / u)) - q / u\<bar> * u = \<bar>round_binary64 q - q\<bar>"
  proof -
    have "(of_int (round_half_even (q / u)) - q / u) * u = round_binary64 q - q"
      unfolding r using u0 by (simp add: algebra_simps)
    then show ?thesis using u0 by (metis abs_mult abs_of_pos)
  qed
  ultimately show ?thesis unfolding u_def by simp
qed

lemma round_binary64_bound: "\<bar>round_binary64 q\<bar> \<le> 2 * \<bar>q\<bar> + 1"
proof (cases "q = 0")
  case True
  then show ?thesis by (simp add: round_binary64_def)
next
  case False
  define u where "u = pow2 (max (ilog2 \<bar>q\<bar>) (- 1022) - 52)"
  have u0: "0 < u" unfolding u_def by (rule pow2_pos)
  have e: "\<bar>round_binary64 q - q\<bar> \<le> u / 2"
    unfolding u_def using False by (rule round_binary64_error)
  have "u \<le> \<bar>q\<bar> \<or> u \<le> 1"
  proof (cases "pow2 (- 1074) \<le> \<bar>q\<bar>")
    case True
    then show ?thesis unfolding u_def using ulp_le by blast
  next
    case False
    then have "\<bar>q\<bar> < 1" by (simp add: pow2_def) 
    have "ilog2 \<bar>q\<bar> \<le> 0"
    proof (rule ccontr)
      assume "\<not> ilog2 \<bar>q\<bar> \<le> 0"
      then have "pow2 0 \<le> pow2 (ilog2 \<bar>q\<bar>)" by (intro pow2_mono) simp
      moreover have "pow2 (ilog2 \<bar>q\<bar>) \<le> \<bar>q\<bar>" using \<open>q \<noteq> 0\<close> by (intro pow2_ilog2_le) simp
      ultimately show False using \<open>\<bar>q\<bar> < 1\<close> by (simp add: pow2_def)
    qed
    then have "u \<le> pow2 0" unfolding u_def by (intro pow2_mono) simp
    then show ?thesis by (simp add: pow2_def)
  qed
  then show ?thesis using e u0 by linarith
qed

lemma round_binary64_nonzero:
  assumes "pow2 (- 1074) \<le> \<bar>q\<bar>"
  shows "round_binary64 q \<noteq> 0"
proof -
  define u where "u = pow2 (max (ilog2 \<bar>q\<bar>) (- 1022) - 52)"
  have u0: "0 < u" unfolding u_def by (rule pow2_pos)
  have q0: "q \<noteq> 0" using assms pow2_pos[of "- 1074"] by auto
  have "u \<le> \<bar>q\<bar>" unfolding u_def using assms by (rule ulp_le)
  moreover have "\<bar>round_binary64 q - q\<bar> \<le> u / 2"
    unfolding u_def using q0 by (rule round_binary64_error)
  ultimately show ?thesis using u0 by linarith
qed

lemma norm_float_finite:
  assumes "\<bar>q\<bar> \<le> 2 ^ 1022" and "0 \<le> q \<or> round_binary64 q \<noteq> 0"
  shows "norm_float (Fin q) = Fin (round_binary64 q)"
proof -
  have "\<bar>round_binary64 q\<bar> \<le> 2 * \<bar>q\<bar> + 1" by (rule round_binary64_bound)
  also have "\<dots> \<le> 2 * 2 ^ 1022 + 1" using assms(1) by simp
  also have "\<dots> < (2::rat) ^ 1024" by simp
  finally have b: "\<bar>round_binary64 q\<bar> < 2 ^ 1024" .
  then have "\<not> 2 ^ 1024 \<le> round_binary64 q" "\<not> round_binary64 q \<le> - (2 ^ 1024)"
    by linarith+
  then show ?thesis using assms(2) by (auto simp: norm_float_def Let_def)
qed

lemma tiny_le: "pow2 (- 1074) \<le> 1 / 10 ^ 12"
  by (simp add: pow2_def)

lemma float_div_of_int:
  assumes "\<bar>n\<bar> < 2 ^ 53" "1 \<le> d" "d \<le> 10 ^ 12"
  shows "float_div (Fin (of_int n)) d = Fin (round_binary64 (of_int n / d))"
proof -
  have n: "norm_float (Fin (of_int n)) = Fin (of_int n)"
    using assms(1) by (rule norm_float_of_int)
  have d0: "0 < d" using assms(2) by simp
  have "\<bar>of_int n :: rat\<bar> < 2 ^ 53"
    using assms(1) by (metis (mono_tags) of_int_abs of_int_less_iff of_int_numeral of_int_power)
  moreover have "\<bar>of_int n / d\<bar> \<le> \<bar>of_int n\<bar>"
    using mult_right_mono[of 1 d "\<bar>of_int n\<bar>"] assms(2) d0 by (simp add: field_simps)
  ultimately have b: "\<bar>of_int n / d\<bar> \<le> 2 ^ 1022" by simp
  have z: "0 \<le> of_int n / d \<or> round_binary64 (of_int n / d) \<noteq> 0"
  proof (cases "0 \<le> n")
    case True
    then show ?thesis using d0 by simp
  next
    case False
    then have "1 \<le> \<bar>of_int n :: rat\<bar>" by simp
    then have "1 / d \<le> \<bar>of_int n :: rat\<bar> / d"
      using d0 by (simp add: divide_right_mono)
    moreover have "1 / 10 ^ 12 \<le> 1 / d"
      using d0 assms(3) by (simp add: frac_le)
    moreover have "\<bar>of_int n / d\<bar> = \<bar>of_int n :: rat\<bar> / d"
      using d0 by simp
    ultimately have "1 / 10 ^ 12 \<le> \<bar>of_int n / d\<bar>" by linarith
    with tiny_le have "pow2 (- 1074) \<le> \<bar>of_int n / d\<bar>" by (rule order_trans)
    then show ?thesis using round_binary64_nonzero by blast
  qed
  show ?thesis
    unfolding float_div_def n using norm_float_finite[OF b z] by simp
qed

lemma norm_float_bounded:
  assumes "\<bar>q\<bar> \<le> 2 ^ 1022"
  shows "norm_float (Fin q) = (if round_binary64 q = 0 \<and> q < 0 then NegZero else Fin (round_binary64 q))"
proof -
  have "\<bar>round_binary64 q\<bar> \<le> 2 * \<bar>q\<bar> + 1" by (rule round_binary64_bound)
  also have "\<dots> \<le> 2 * 2 ^ 1022 + 1" using assms(1) by simp
  also have "\<dots> < (2::rat) ^ 1024" by simp
  finally have b: "\<bar>round_binary64 q\<bar> < 2 ^ 1024" .
  then have "\<not> 2 ^ 1024 \<le> round_binary64 q" "\<not> round_binary64 q \<le> - (2 ^ 1024)"
    by linarith+
  then show ?thesis by (auto simp: norm_float_def Let_def)
qed

lemma float_ge_fin:
  assumes "\<bar>q\<bar> \<le> 2 ^ 1022"
  shows "float_ge (Fin q) c = (c \<le> round_binary64 q)"
  by (simp add: float_ge_def norm_float_bounded[OF assms])

lemma float_truthy_fin:
  assumes "\<bar>q\<bar> \<le> 2 ^ 1022"
  shows "float_truthy (Fin q) = (round_binary64 q \<noteq> 0)"
  by (simp add: float_truthy_def norm_float_bounded[OF assms])

lemma float_2f_fin:
  assumes "\<bar>q\<bar> \<le> 2 ^ 1022" "0 \<le> q \<or> round_binary64 q \<noteq> 0"
  shows "float_2f (Fin q) = fmt_2f (round_binary64 q)"
  using assms(2) by (auto simp: float_2f_def norm_float_bounded[OF assms(1)])

lemma float_grouped_fin:
  assumes "\<bar>q\<bar> \<le> 2 ^ 1022" "round_binary64 q \<noteq> 0"
  shows "float_grouped (Fin q) = fin_repr True (round_binary64 q)"
  using assms(2) by (simp add: float_grouped_def float_text_def norm_float_bounded[OF assms(1)])

lemma float_ge_abs_fin:
  assumes "\<bar>q\<bar> \<le> 2 ^ 1020"
  shows "float_ge (float_abs (Fin q)) c = (c \<le> round_binary64 \<bar>round_binary64 q\<bar>)"
proof -
  have q: "\<bar>q\<bar> \<le> 2 ^ 1022" using assms by (rule order_trans) simp
  have "\<bar>round_binary64 q\<bar> \<le> 2 * \<bar>q\<bar> + 1" by (rule round_binary64_bound)
  also have "\<dots> \<le> 2 * 2 ^ 1020 + 1" using assms by simp
  also have "\<dots> \<le> (2::rat) ^ 1022" by simp
  finally have b: "\<bar>\<bar>round_binary64 q\<bar>\<bar> \<le> 2 ^ 1022" by simp
  have z: "\<bar>0::rat\<bar> \<le> 2 ^ 1022" by simp
  have r0: "round_binary64 0 = 0" by (simp add: round_binary64_def)
  show ?thesis
    using float_ge_fin[OF b, of c] float_ge_fin[OF z, of c]
    by (auto simp: float_abs_def norm_float_bounded[OF q] r0)
qed

lemma float_of_int_overflow:
  assumes "2 ^ 1025 \<le> \<bar>n\<bar>"
  shows "float_of_int n = Inl (OverflowError ''int too large to convert to float'')"
proof -
  define q :: rat where "q = of_int n"
  have big: "2 ^ 1025 \<le> \<bar>q\<bar>"
    unfolding q_def using assms
    by (metis (mono_tags) of_int_abs of_int_le_iff of_int_numeral of_int_power)
  then have q0: "q \<noteq> 0" by auto
  have "pow2 (- 1074) \<le> 1" by (simp add: pow2_def)
  also have "\<dots> \<le> \<bar>q\<bar>" using big by (rule order_trans[rotated]) simp
  finally have "pow2 (max (ilog2 \<bar>q\<bar>) (- 1022) - 52) \<le> \<bar>q\<bar>" by (rule ulp_le)
  with round_binary64_error[OF q0] have "\<bar>round_binary64 q - q\<bar> \<le> \<bar>q\<bar> / 2" by linarith
  then have "\<bar>q\<bar> / 2 \<le> \<bar>round_binary64 q\<bar>" by linarith
  moreover have "2 ^ 1024 \<le> \<bar>q\<bar> / 2" using big by simp
  ultimately have "2 ^ 1024 \<le> \<bar>round_binary64 q\<bar>" by linarith
  then show ?thesis unfolding q_def by (simp add: float_of_int_def Let_def)
qed

lemma float_of_int_error:
  "float_of_int n = Inl e \<Longrightarrow> e = OverflowError ''int too large to convert to float''"
  by (auto simp: float_of_int_def Let_def split: if_splits)

lemma float_2f_div_of_int:
  assumes "\<bar>n\<bar> < 2 ^ 53" "1 \<le> d" "d \<le> 10 ^ 12"
    and "round_binary64 (round_binary64 (of_int n / d)) \<noteq> 0"
  shows "float_2f (float_div (Fin (of_int n)) d) =
         fmt_2f (round_binary64 (round_binary64 (of_int n / d)))"
proof -
  have d0: "0 < d" using assms(2) by simp
  have "\<bar>of_int n :: rat\<bar> < 2 ^ 53"
    using assms(1) by (metis (mono_tags) of_int_abs of_int_less_iff of_int_numeral of_int_power)
  moreover have "\<bar>of_int n / d\<bar> \<le> \<bar>of_int n\<bar>"
    using mult_right_mono[of 1 d "\<bar>of_int n\<bar>"] assms(2) d0 by (simp add: field_simps)
  ultimately have "\<bar>of_int n / d\<bar> \<le> 2 ^ 53" by simp
  moreover have "\<bar>round_binary64 (of_int n / d)\<bar> \<le> 2 * \<bar>of_int n / d\<bar> + 1"
    by (rule round_binary64_bound)
  ultimately have "\<bar>round_binary64 (of_int n / d)\<bar> \<le> 2 * 2 ^ 53 + 1" by linarith
  also have "\<dots> \<le> (2::rat) ^ 1022" by simp
  finally have b: "\<bar>round_binary64 (of_int n / d)\<bar> \<le> 2 ^ 1022" .
  show ?thesis
    unfolding float_div_of_int[OF assms(1,2,3)] using assms(4) by (simp add: float_2f_fin[OF b])
qed

lemma int_truediv_of_int:
  assumes "\<bar>n\<bar> < 2 ^ 53"
  shows "int_truediv n d = Inr (float_div (Fin (of_int n)) d)"
  by (simp add: int_truediv_def float_of_int_exact[OF assms])

lemma fmt_2f_examples:
  "fmt_2f (round_binary64 (round_binary64 (2500000000000 / 10 ^ 12))) = ''2.50''"
  "fmt_2f (round_binary64 (round_binary64 (3400000000 / 10 ^ 9))) = ''3.40''"
  "fmt_2f (round_binary64 (round_binary64 (7000000 / 10 ^ 6))) = ''7.00''"
  "fmt_2f (round_binary64 (round_binary64 (1000000000000 / 10 ^ 12))) = ''1.00''"
  "fmt_2f (round_binary64 (round_binary64 (999999999999 / 10 ^ 9))) = ''1000.00''"
  "fmt_2f (round_binary64 (round_binary64 (1000000000 / 10 ^ 9))) = ''1.00''"
  "fmt_2f (round_binary64 (round_binary64 (999999999 / 10 ^ 6))) = ''1000.00''"
  "fmt_2f (round_binary64 (round_binary64 (1000000 / 10 ^ 6))) = ''1.00''"
  "fmt_2f (round_binary64 (round_binary64 (- 2500000000000 / 10 ^ 12))) = ''-2.50''"
  "fmt_2f (round_binary64 (round_binary64 (2950000000000 / 10 ^ 12))) = ''2.95''"
  by code_simp+

lemma nonzero_examples:
  "round_binary64 (round_binary64 (2500000000000 / 10 ^ 12)) \<noteq> 0"
  "round_binary64 (round_binary64 (3400000000 / 10 ^ 9)) \<noteq> 0"
  "round_binary64 (round_binary64 (7000000 / 10 ^ 6)) \<noteq> 0"
  "round_binary64 (round_binary64 (1000000000000 / 10 ^ 12)) \<noteq> 0"
  "round_binary64 (round_binary64 (999999999999 / 10 ^ 9)) \<noteq> 0"
  "round_binary64 (round_binary64 (1000000000 / 10 ^ 9)) \<noteq> 0"
  "round_binary64 (round_binary64 (999999999 / 10 ^ 6)) \<noteq> 0"
  "round_binary64 (round_binary64 (1000000 / 10 ^ 6)) \<noteq> 0"
  "round_binary64 (round_binary64 (- 2500000000000 / 10 ^ 12)) \<noteq> 0"
  "round_binary64 (round_binary64 (2950000000000 / 10 ^ 12)) \<noteq> 0"
  by code_simp+

lemma int_text_examples:
  "int_grouped 500 = ''500''" "int_str 500 = ''500''"
  "int_grouped 999999 = ''999,999''" "int_str 999999 = ''999999''"
  "int_grouped (- 2500000000000) = ''-2,500,000,000,000''"
  by code_simp+

lemma float_value_examples:
  "10 ^ 12 \<le> round_binary64 2500000000000"
  "round_binary64 (99999999 / 100) \<noteq> 0"
  "\<not> 10 ^ 6 \<le> round_binary64 (99999999 / 100)"
  "\<not> 10 ^ 6 \<le> round_binary64 \<bar>round_binary64 (99999999 / 100)\<bar>"
  "fin_repr True (round_binary64 (99999999 / 100)) = ''999,999.99''"
  "fmt_2f (round_binary64 (99999999 / 100)) = ''999999.99''"
  "round_binary64 500 \<noteq> 0" "\<not> 10 ^ 6 \<le> round_binary64 500"
  "fin_repr True (round_binary64 500) = ''500.0''"
  "\<not> 10 ^ 6 \<le> round_binary64 \<bar>round_binary64 (18984 / 100)\<bar>"
  "fmt_2f (round_binary64 (18984 / 100)) = ''189.84''"
  by code_simp+

section \<open>Market cap formatting\<close>

lemma overflow_forms:
  assumes "2 ^ 1025 \<le> n"
  shows "market_cap_str (PInt n) = Inl (OverflowError ''int too large to convert to float'')"
    and "fmt (PInt n) = Inl (OverflowError ''int too large to convert to float'')"
proof -
  have a: "2 ^ 1025 \<le> \<bar>n\<bar>" using assms by simp
  have b: "10 ^ 12 \<le> n" by (rule order_trans[OF _ assms]) simp
  show "market_cap_str (PInt n) = Inl (OverflowError ''int too large to convert to float'')"
    using b by (auto simp: market_cap_str_def int_truediv_def float_of_int_overflow[OF a])
  show "fmt (PInt n) = Inl (OverflowError ''int too large to convert to float'')"
    using b by (simp add: fmt_def int_truediv_def float_of_int_overflow[OF a])
qed


lemma float_of_int_examples:
  "float_of_int 2500000000000 = Inr (Fin 2500000000000)"
  "float_of_int 3400000000 = Inr (Fin 3400000000)"
  "float_of_int 7000000 = Inr (Fin 7000000)"
  "float_of_int 1000000000000 = Inr (Fin 1000000000000)"
  "float_of_int 999999999999 = Inr (Fin 999999999999)"
  "float_of_int 1000000000 = Inr (Fin 1000000000)"
  "float_of_int 999999999 = Inr (Fin 999999999)"
  "float_of_int 1000000 = Inr (Fin 1000000)"
  "float_of_int 2950000000000 = Inr (Fin 2950000000000)"
  using float_of_int_exact[of 2500000000000] float_of_int_exact[of 3400000000]
    float_of_int_exact[of 7000000] float_of_int_exact[of 1000000000000]
    float_of_int_exact[of 999999999999] float_of_int_exact[of 1000000000]
    float_of_int_exact[of 999999999] float_of_int_exact[of 1000000]
    float_of_int_exact[of 2950000000000]
  by simp_all

lemma float_2f_div_examples:
  "float_2f (float_div (Fin 2500000000000) (10 ^ 12)) = ''2.50''"
  "float_2f (float_div (Fin 3400000000) (10 ^ 9)) = ''3.40''"
  "float_2f (float_div (Fin 7000000) (10 ^ 6)) = ''7.00''"
  "float_2f (float_div (Fin 1000000000000) (10 ^ 12)) = ''1.00''"
  "float_2f (float_div (Fin 999999999999) (10 ^ 9)) = ''1000.00''"
  "float_2f (float_div (Fin 1000000000) (10 ^ 9)) = ''1.00''"
  "float_2f (float_div (Fin 999999999) (10 ^ 6)) = ''1000.00''"
  "float_2f (float_div (Fin 1000000) (10 ^ 6)) = ''1.00''"
  "float_2f (float_div (Fin 2950000000000) (10 ^ 12)) = ''2.95''"
proof -
  have e: "of_int 2500000000000 = (2500000000000 :: rat)" "of_int 3400000000 = (3400000000 :: rat)"
    "of_int 7000000 = (7000000 :: rat)" "of_int 1000000000000 = (1000000000000 :: rat)"
    "of_int 999999999999 = (999999999999 :: rat)" "of_int 1000000000 = (1000000000 :: rat)"
    "of_int 999999999 = (999999999 :: rat)" "of_int 1000000 = (1000000 :: rat)"
    "of_int 2950000000000 = (2950000000000 :: rat)"
    by simp_all
  show "float_2f (float_div (Fin 2500000000000) (10 ^ 12)) = ''2.50''"
    using float_2f_div_of_int[of 2500000000000 "10 ^ 12"]
    unfolding e fmt_2f_examples using nonzero_examples by simp
  show "float_2f (float_div (Fin 3400000000) (10 ^ 9)) = ''3.40''"
    using float_2f_div_of_int[of 3400000000 "10 ^ 9"]
    unfolding e fmt_2f_examples using nonzero_examples by simp
  show "float_2f (float_div (Fin 7000000) (10 ^ 6)) = ''7.00''"
    using float_2f_div_of_int[of 7000000 "10 ^ 6"]
    unfolding e fmt_2f_examples using nonzero_examples by simp
  show "float_2f (float_div (Fin 1000000000000) (10 ^ 12)) = ''1.00''"
    using float_2f_div_of_int[of 1000000000000 "10 ^ 12"]
    unfolding e fmt_2f_examples using nonzero_examples by simp
  show "float_2f (float_div (Fin 999999999999) (10 ^ 9)) = ''1000.00''"
    using float_2f_div_of_int[of 999999999999 "10 ^ 9"]
    unfolding e fmt_2f_examples using nonzero_examples by simp
  show "float_2f (float_div (Fin 1000000000) (10 ^ 9)) = ''1.00''"
    using float_2f_div_of_int[of 1000000000 "10 ^ 9"]
    unfolding e fmt_2f_examples using nonzero_examples by simp
  show "float_2f (float_div (Fin 999999999) (10 ^ 6)) = ''1000.00''"
    using float_2f_div_of_int[of 999999999 "10 ^ 6"]
    unfolding e fmt_2f_examples using nonzero_examples by simp
  show "float_2f (float_div (Fin 1000000) (10 ^ 6)) = ''1.00''"
    using float_2f_div_of_int[of 1000000 "10 ^ 6"]
    unfolding e fmt_2f_examples using nonzero_examples by simp
  show "float_2f (float_div (Fin 2950000000000) (10 ^ 12)) = ''2.95''"
    using float_2f_div_of_int[of 2950000000000 "10 ^ 12"]
    unfolding e fmt_2f_examples using nonzero_examples by simp
qed

lemma float_examples:
  "float_ge (Fin 2500000000000) (10 ^ 12)"
  "float_truthy (Fin (99999999 / 100))"
  "\<not> float_ge (Fin (99999999 / 100)) (10 ^ 6)"
  "\<not> float_ge (float_abs (Fin (99999999 / 100))) (10 ^ 6)"
  "float_grouped (Fin (99999999 / 100)) = ''999,999.99''"
  "float_2f (Fin (99999999 / 100)) = ''999999.99''"
  "float_truthy (Fin 500)"
  "\<not> float_ge (Fin 500) (10 ^ 6)"
  "float_grouped (Fin 500) = ''500.0''"
  "\<not> float_ge (float_abs (Fin (18984 / 100))) (10 ^ 6)"
  "float_2f (Fin (18984 / 100)) = ''189.84''"
  "\<not> float_truthy (Fin 0)"
proof -
  have b: "\<bar>2500000000000 :: rat\<bar> \<le> 2 ^ 1022" "\<bar>99999999 / 100 :: rat\<bar> \<le> 2 ^ 1022"
    "\<bar>500 :: rat\<bar> \<le> 2 ^ 1022" "\<bar>18984 / 100 :: rat\<bar> \<le> 2 ^ 1022" "\<bar>0 :: rat\<bar> \<le> 2 ^ 1022"
    by simp_all
  have c: "\<bar>99999999 / 100 :: rat\<bar> \<le> 2 ^ 1020" "\<bar>18984 / 100 :: rat\<bar> \<le> 2 ^ 1020"
    by simp_all
  have p: "0 \<le> (99999999 / 100 :: rat) \<or> round_binary64 (99999999 / 100) \<noteq> 0"
    "0 \<le> (18984 / 100 :: rat) \<or> round_binary64 (18984 / 100) \<noteq> 0"
    by simp_all
  show "float_ge (Fin 2500000000000) (10 ^ 12)"
    unfolding float_ge_fin[OF b(1)] by (rule float_value_examples)
  show "float_truthy (Fin (99999999 / 100))"
    unfolding float_truthy_fin[OF b(2)] by (rule float_value_examples)
  show "\<not> float_ge (Fin (99999999 / 100)) (10 ^ 6)"
    unfolding float_ge_fin[OF b(2)] by (rule float_value_examples)
  show "\<not> float_ge (float_abs (Fin (99999999 / 100))) (10 ^ 6)"
    unfolding float_ge_abs_fin[OF c(1)] by (rule float_value_examples)
  show "float_grouped (Fin (99999999 / 100)) = ''999,999.99''"
    unfolding float_grouped_fin[OF b(2) float_value_examples(2)] by (rule float_value_examples)
  show "float_2f (Fin (99999999 / 100)) = ''999999.99''"
    unfolding float_2f_fin[OF b(2) p(1)] by (rule float_value_examples)
  show "float_truthy (Fin 500)"
    unfolding float_truthy_fin[OF b(3)] by (rule float_value_examples)
  show "\<not> float_ge (Fin 500) (10 ^ 6)"
    unfolding float_ge_fin[OF b(3)] by (rule float_value_examples)
  show "float_grouped (Fin 500) = ''500.0''"
    unfolding float_grouped_fin[OF b(3) float_value_examples(7)] by (rule float_value_examples)
  show "\<not> float_ge (float_abs (Fin (18984 / 100))) (10 ^ 6)"
    unfolding float_ge_abs_fin[OF c(2)] by (rule float_value_examples)
  show "float_2f (Fin (18984 / 100)) = ''189.84''"
    unfolding float_2f_fin[OF b(4) p(2)] by (rule float_value_examples)
  show "\<not> float_truthy (Fin 0)"
    unfolding float_truthy_fin[OF b(5)] by (simp add: round_binary64_def)
qed

lemma special_float_examples:
  "\<not> float_ge NaN c" "\<not> float_ge (float_abs NaN) c" "float_truthy NaN"
  "float_grouped NaN = ''nan''" "float_2f NaN = ''nan''"
  "float_ge (float_abs NegInf) c" "float_2f (float_div NegInf d) = ''-inf''"
  by (simp_all add: float_ge_def float_abs_def float_truthy_def float_grouped_def float_text_def
      float_2f_def float_div_def norm_float_def)


text \<open>
  C6, as the code has it. Below one million \<open>fmt\<close> of utils.py prints two decimals
  and no thousands separator, while the tile of app.py prints the integer grouped;
  a zero market cap is shown as \<open>N/A\<close> by the tile; \<open>fmt\<close> compares the absolute
  value with the thresholds, the tile the value itself, so a negative value gets a
  unit from one and the grouped form from the other; and an integer too large for
  a float makes the division raise.
\<close>

theorem market_cap_forms_counterexample:
  "fmt (PInt 999999) = Inr ''$999999.00'' \<and>
   market_cap_str (PInt 999999) = Inr ''$999,999'' \<and>
   market_cap_str (PInt 0) = Inr ''N/A'' \<and>
   fmt (PInt (- 2500000000000)) = Inr ''$-2.50T'' \<and>
   market_cap_str (PInt (- 2500000000000)) = Inr ''$-2,500,000,000,000'' \<and>
   market_cap_str (PInt (10 ^ 400)) = Inl (OverflowError ''int too large to convert to float'') \<and>
   fmt (PInt (10 ^ 400)) = Inl (OverflowError ''int too large to convert to float'')"
proof -
  have a: "\<bar>999999 :: int\<bar> < 10 ^ 6" by simp
  have c1: "fmt (PInt 999999) = Inr ''$999999.00''"
    unfolding fmt_small[OF a] int_text_examples by simp
  have c2: "market_cap_str (PInt 999999) = Inr ''$999,999''"
    by (simp add: market_cap_str_def int_text_examples)
  have c3: "market_cap_str (PInt 0) = Inr ''N/A''"
    by (simp add: market_cap_str_def)
  have b: "\<bar>- 2500000000000 :: int\<bar> < 2 ^ 53" by simp
  have e: "of_int (- 2500000000000) = (- 2500000000000 :: rat)" by simp
  have "float_2f (float_div (Fin (of_int (- 2500000000000))) (10 ^ 12)) = ''-2.50''"
    by (subst float_2f_div_of_int[OF b]) (simp_all only: e nonzero_examples fmt_2f_examples, simp_all)
  then have c4: "fmt (PInt (- 2500000000000)) = Inr ''$-2.50T''"
    by (simp add: fmt_def int_truediv_of_int[OF b])
  have c5: "market_cap_str (PInt (- 2500000000000)) = Inr ''$-2,500,000,000,000''"
    by (simp add: market_cap_str_def int_text_examples)
  have big: "2 ^ 1025 \<le> (10 ^ 400 :: int)" by simp
  note c6 = overflow_forms(1)[OF big] and c7 = overflow_forms(2)[OF big]
  from c1 c2 c3 c4 c5 c6 c7 show ?thesis by blast
qed


text \<open>
  C6, amended. For every integer \<open>n\<close> and every float \<open>x\<close>. An integer at or above
  a threshold is converted to a float \<open>f\<close> (exactly below \<open>2^53\<close>, to the nearest
  float below \<open>2^1023\<close>; from \<open>2^1025\<close> on the conversion raises \<open>OverflowError\<close>,
  which both functions pass on), and the float quotient by 1e12, 1e9 or 1e6 is
  printed with two decimals between \<open>$\<close> and \<open>T\<close>, \<open>B\<close> or \<open>M\<close>. The tile of app.py
  compares the value itself with the thresholds, prints a smaller nonzero integer
  with thousands separators, a smaller nonzero float as \<open>repr\<close> shows it with
  thousands separators, and zero as \<open>N/A\<close>; \<open>fmt\<close> of utils.py compares the absolute
  value and prints a smaller value with two decimals and no separator. A float that
  is not a number meets no threshold.
\<close>

theorem market_cap_formatting:
  "(float_of_int n = Inr f \<longrightarrow>
      (10 ^ 12 \<le> n \<longrightarrow>
         market_cap_str (PInt n) = Inr (''$'' @ float_2f (float_div f (10 ^ 12)) @ ''T'')) \<and>
      (10 ^ 9 \<le> n \<and> n < 10 ^ 12 \<longrightarrow>
         market_cap_str (PInt n) = Inr (''$'' @ float_2f (float_div f (10 ^ 9)) @ ''B'')) \<and>
      (10 ^ 6 \<le> n \<and> n < 10 ^ 9 \<longrightarrow>
         market_cap_str (PInt n) = Inr (''$'' @ float_2f (float_div f (10 ^ 6)) @ ''M'')) \<and>
      (10 ^ 12 \<le> \<bar>n\<bar> \<longrightarrow>
         fmt (PInt n) = Inr (''$'' @ float_2f (float_div f (10 ^ 12)) @ ''T'')) \<and>
      (10 ^ 9 \<le> \<bar>n\<bar> \<and> \<bar>n\<bar> < 10 ^ 12 \<longrightarrow>
         fmt (PInt n) = Inr (''$'' @ float_2f (float_div f (10 ^ 9)) @ ''B'')) \<and>
      (10 ^ 6 \<le> \<bar>n\<bar> \<and> \<bar>n\<bar> < 10 ^ 9 \<longrightarrow>
         fmt (PInt n) = Inr (''$'' @ float_2f (float_div f (10 ^ 6)) @ ''M''))) \<and>
   (float_of_int n = Inl e \<longrightarrow>
      e = OverflowError ''int too large to convert to float'' \<and>
      (10 ^ 6 \<le> n \<longrightarrow> market_cap_str (PInt n) = Inl e) \<and>
      (10 ^ 6 \<le> \<bar>n\<bar> \<longrightarrow> fmt (PInt n) = Inl e)) \<and>
   (\<bar>n\<bar> < 2 ^ 53 \<longrightarrow> float_of_int n = Inr (Fin (of_int n))) \<and>
   (\<bar>n\<bar> < 2 ^ 1023 \<longrightarrow> float_of_int n = Inr (Fin (round_binary64 (of_int n)))) \<and>
   (2 ^ 1025 \<le> \<bar>n\<bar> \<longrightarrow>
      float_of_int n = Inl (OverflowError ''int too large to convert to float'')) \<and>
   (n < 10 ^ 6 \<and> n \<noteq> 0 \<longrightarrow> market_cap_str (PInt n) = Inr (''$'' @ int_grouped n)) \<and>
   market_cap_str (PInt 0) = Inr ''N/A'' \<and>
   (\<bar>n\<bar> < 10 ^ 6 \<longrightarrow> fmt (PInt n) = Inr (''$'' @ int_str n @ ''.00'')) \<and>
   (float_ge x (10 ^ 12) \<longrightarrow>
      market_cap_str (PFloat x) = Inr (''$'' @ float_2f (float_div x (10 ^ 12)) @ ''T'')) \<and>
   (float_ge x (10 ^ 9) \<and> \<not> float_ge x (10 ^ 12) \<longrightarrow>
      market_cap_str (PFloat x) = Inr (''$'' @ float_2f (float_div x (10 ^ 9)) @ ''B'')) \<and>
   (float_ge x (10 ^ 6) \<and> \<not> float_ge x (10 ^ 9) \<longrightarrow>
      market_cap_str (PFloat x) = Inr (''$'' @ float_2f (float_div x (10 ^ 6)) @ ''M'')) \<and>
   (float_truthy x \<and> \<not> float_ge x (10 ^ 6) \<longrightarrow>
      market_cap_str (PFloat x) = Inr (''$'' @ float_grouped x)) \<and>
   (\<not> float_truthy x \<longrightarrow> market_cap_str (PFloat x) = Inr ''N/A'') \<and>
   (float_ge (float_abs x) (10 ^ 12) \<longrightarrow>
      fmt (PFloat x) = Inr (''$'' @ float_2f (float_div x (10 ^ 12)) @ ''T'')) \<and>
   (float_ge (float_abs x) (10 ^ 9) \<and> \<not> float_ge (float_abs x) (10 ^ 12) \<longrightarrow>
      fmt (PFloat x) = Inr (''$'' @ float_2f (float_div x (10 ^ 9)) @ ''B'')) \<and>
   (float_ge (float_abs x) (10 ^ 6) \<and> \<not> float_ge (float_abs x) (10 ^ 9) \<longrightarrow>
      fmt (PFloat x) = Inr (''$'' @ float_2f (float_div x (10 ^ 6)) @ ''M'')) \<and>
   (\<not> float_ge (float_abs x) (10 ^ 6) \<longrightarrow> fmt (PFloat x) = Inr (''$'' @ float_2f x))"
proof -
  have i1: "float_of_int n = Inr f \<longrightarrow>
      (10 ^ 12 \<le> n \<longrightarrow>
         market_cap_str (PInt n) = Inr (''$'' @ float_2f (float_div f (10 ^ 12)) @ ''T'')) \<and>
      (10 ^ 9 \<le> n \<and> n < 10 ^ 12 \<longrightarrow>
         market_cap_str (PInt n) = Inr (''$'' @ float_2f (float_div f (10 ^ 9)) @ ''B'')) \<and>
      (10 ^ 6 \<le> n \<and> n < 10 ^ 9 \<longrightarrow>
         market_cap_str (PInt n) = Inr (''$'' @ float_2f (float_div f (10 ^ 6)) @ ''M''))"
    by (auto simp: market_cap_str_def int_truediv_def)
  have i2: "float_of_int n = Inr f \<longrightarrow>
      (10 ^ 12 \<le> \<bar>n\<bar> \<longrightarrow>
         fmt (PInt n) = Inr (''$'' @ float_2f (float_div f (10 ^ 12)) @ ''T'')) \<and>
      (10 ^ 9 \<le> \<bar>n\<bar> \<and> \<bar>n\<bar> < 10 ^ 12 \<longrightarrow>
         fmt (PInt n) = Inr (''$'' @ float_2f (float_div f (10 ^ 9)) @ ''B'')) \<and>
      (10 ^ 6 \<le> \<bar>n\<bar> \<and> \<bar>n\<bar> < 10 ^ 9 \<longrightarrow>
         fmt (PInt n) = Inr (''$'' @ float_2f (float_div f (10 ^ 6)) @ ''M''))"
    by (simp add: fmt_def int_truediv_def)
  have i3: "float_of_int n = Inl e \<longrightarrow>
      e = OverflowError ''int too large to convert to float'' \<and>
      (10 ^ 6 \<le> n \<longrightarrow> market_cap_str (PInt n) = Inl e) \<and>
      (10 ^ 6 \<le> \<bar>n\<bar> \<longrightarrow> fmt (PInt n) = Inl e)"
  proof
    assume h: "float_of_int n = Inl e"
    have "e = OverflowError ''int too large to convert to float''"
      using h by (rule float_of_int_error)
    moreover have "10 ^ 6 \<le> n \<longrightarrow> market_cap_str (PInt n) = Inl e"
      using h by (auto simp: market_cap_str_def int_truediv_def)
    moreover have "10 ^ 6 \<le> \<bar>n\<bar> \<longrightarrow> fmt (PInt n) = Inl e"
      using h by (simp add: fmt_def int_truediv_def)
    ultimately show "e = OverflowError ''int too large to convert to float'' \<and>
      (10 ^ 6 \<le> n \<longrightarrow> market_cap_str (PInt n) = Inl e) \<and>
      (10 ^ 6 \<le> \<bar>n\<bar> \<longrightarrow> fmt (PInt n) = Inl e)" by blast
  qed
  have i4: "\<bar>n\<bar> < 2 ^ 53 \<longrightarrow> float_of_int n = Inr (Fin (of_int n))"
    by (simp add: float_of_int_exact)
  have i5: "\<bar>n\<bar> < 2 ^ 1023 \<longrightarrow> float_of_int n = Inr (Fin (round_binary64 (of_int n)))"
    by (simp add: float_of_int_converts)
  have i6: "2 ^ 1025 \<le> \<bar>n\<bar> \<longrightarrow>
      float_of_int n = Inl (OverflowError ''int too large to convert to float'')"
    by (simp add: float_of_int_overflow)
  have i7: "n < 10 ^ 6 \<and> n \<noteq> 0 \<longrightarrow> market_cap_str (PInt n) = Inr (''$'' @ int_grouped n)"
    by (auto simp: market_cap_str_def)
  have i8: "market_cap_str (PInt 0) = Inr ''N/A''"
    by (simp add: market_cap_str_def)
  have i9: "\<bar>n\<bar> < 10 ^ 6 \<longrightarrow> fmt (PInt n) = Inr (''$'' @ int_str n @ ''.00'')"
    by (simp add: fmt_small)
  have t: "float_ge x c \<Longrightarrow> 0 < c \<Longrightarrow> float_truthy x" for c
    by (rule float_ge_truthy)
  have f1: "float_ge x (10 ^ 12) \<longrightarrow>
      market_cap_str (PFloat x) = Inr (''$'' @ float_2f (float_div x (10 ^ 12)) @ ''T'')"
    using t[of "10 ^ 12"] by (auto simp: market_cap_str_def)
  have f2: "float_ge x (10 ^ 9) \<and> \<not> float_ge x (10 ^ 12) \<longrightarrow>
      market_cap_str (PFloat x) = Inr (''$'' @ float_2f (float_div x (10 ^ 9)) @ ''B'')"
    using t[of "10 ^ 9"] by (auto simp: market_cap_str_def)
  have f3: "float_ge x (10 ^ 6) \<and> \<not> float_ge x (10 ^ 9) \<longrightarrow>
      market_cap_str (PFloat x) = Inr (''$'' @ float_2f (float_div x (10 ^ 6)) @ ''M'')"
  proof
    assume h: "float_ge x (10 ^ 6) \<and> \<not> float_ge x (10 ^ 9)"
    then have "\<not> float_ge x (10 ^ 12)"
      by (auto simp: float_ge_def split: pyfloat.splits)
    then show "market_cap_str (PFloat x) = Inr (''$'' @ float_2f (float_div x (10 ^ 6)) @ ''M'')"
      using h t[of "10 ^ 6"] by (auto simp: market_cap_str_def)
  qed
  have f4: "float_truthy x \<and> \<not> float_ge x (10 ^ 6) \<longrightarrow>
      market_cap_str (PFloat x) = Inr (''$'' @ float_grouped x)"
  proof
    assume h: "float_truthy x \<and> \<not> float_ge x (10 ^ 6)"
    then have "\<not> float_ge x (10 ^ 12)" "\<not> float_ge x (10 ^ 9)"
      by (auto simp: float_ge_def split: pyfloat.splits)
    then show "market_cap_str (PFloat x) = Inr (''$'' @ float_grouped x)"
      using h by (simp add: market_cap_str_def)
  qed
  have f5: "\<not> float_truthy x \<longrightarrow> market_cap_str (PFloat x) = Inr ''N/A''"
    by (simp add: market_cap_str_def)
  have g1: "float_ge (float_abs x) (10 ^ 12) \<longrightarrow>
      fmt (PFloat x) = Inr (''$'' @ float_2f (float_div x (10 ^ 12)) @ ''T'')"
    by (simp add: fmt_def)
  have g2: "float_ge (float_abs x) (10 ^ 9) \<and> \<not> float_ge (float_abs x) (10 ^ 12) \<longrightarrow>
      fmt (PFloat x) = Inr (''$'' @ float_2f (float_div x (10 ^ 9)) @ ''B'')"
    by (simp add: fmt_def)
  have g3: "float_ge (float_abs x) (10 ^ 6) \<and> \<not> float_ge (float_abs x) (10 ^ 9) \<longrightarrow>
      fmt (PFloat x) = Inr (''$'' @ float_2f (float_div x (10 ^ 6)) @ ''M'')"
  proof
    assume h: "float_ge (float_abs x) (10 ^ 6) \<and> \<not> float_ge (float_abs x) (10 ^ 9)"
    then have "\<not> float_ge (float_abs x) (10 ^ 12)"
      by (auto simp: float_ge_def split: pyfloat.splits)
    then show "fmt (PFloat x) = Inr (''$'' @ float_2f (float_div x (10 ^ 6)) @ ''M'')"
      using h by (simp add: fmt_def)
  qed
  have g4: "\<not> float_ge (float_abs x) (10 ^ 6) \<longrightarrow> fmt (PFloat x) = Inr (''$'' @ float_2f x)"
  proof
    assume h: "\<not> float_ge (float_abs x) (10 ^ 6)"
    then have "\<not> float_ge (float_abs x) (10 ^ 12)" "\<not> float_ge (float_abs x) (10 ^ 9)"
      by (auto simp: float_ge_def split: pyfloat.splits)
    then show "fmt (PFloat x) = Inr (''$'' @ float_2f x)"
      using h by (simp add: fmt_def)
  qed
  from i1 i2 have i12: "float_of_int n = Inr f \<longrightarrow>
      (10 ^ 12 \<le> n \<longrightarrow>
         market_cap_str (PInt n) = Inr (''$'' @ float_2f (float_div f (10 ^ 12)) @ ''T'')) \<and>
      (10 ^ 9 \<le> n \<and> n < 10 ^ 12 \<longrightarrow>
         market_cap_str (PInt n) = Inr (''$'' @ float_2f (float_div f (10 ^ 9)) @ ''B'')) \<and>
      (10 ^ 6 \<le> n \<and> n < 10 ^ 9 \<longrightarrow>
         market_cap_str (PInt n) = Inr (''$'' @ float_2f (float_div f (10 ^ 6)) @ ''M'')) \<and>
      (10 ^ 12 \<le> \<bar>n\<bar> \<longrightarrow>
         fmt (PInt n) = Inr (''$'' @ float_2f (float_div f (10 ^ 12)) @ ''T'')) \<and>
      (10 ^ 9 \<le> \<bar>n\<bar> \<and> \<bar>n\<bar> < 10 ^ 12 \<longrightarrow>
         fmt (PInt n) = Inr (''$'' @ float_2f (float_div f (10 ^ 9)) @ ''B'')) \<and>
      (10 ^ 6 \<le> \<bar>n\<bar> \<and> \<bar>n\<bar> < 10 ^ 9 \<longrightarrow>
         fmt (PInt n) = Inr (''$'' @ float_2f (float_div f (10 ^ 6)) @ ''M''))"
    by blast
  show ?thesis
    by (intro conjI i12 i3 i4 i5 i6 i7 i8 i9 f1 f2 f3 f4 f5 g1 g2 g3 g4)
qed

text \<open>
  The examples of the specification, the values at and just below each threshold,
  and floats: a finite one in each form, zero, not-a-number and an infinity.
\<close>

theorem market_cap_formatting_witness:
  "market_cap_str (PInt 2500000000000) = Inr ''$2.50T'' \<and> fmt (PInt 2500000000000) = Inr ''$2.50T'' \<and>
   market_cap_str (PInt 3400000000) = Inr ''$3.40B'' \<and> fmt (PInt 3400000000) = Inr ''$3.40B'' \<and>
   market_cap_str (PInt 7000000) = Inr ''$7.00M'' \<and> fmt (PInt 7000000) = Inr ''$7.00M'' \<and>
   market_cap_str (PInt 500) = Inr ''$500'' \<and> fmt (PInt 500) = Inr ''$500.00'' \<and>
   market_cap_str (PInt 0) = Inr ''N/A'' \<and>
   market_cap_str (PInt 1000000000000) = Inr ''$1.00T'' \<and>
   market_cap_str (PInt 999999999999) = Inr ''$1000.00B'' \<and>
   market_cap_str (PInt 1000000000) = Inr ''$1.00B'' \<and>
   market_cap_str (PInt 999999999) = Inr ''$1000.00M'' \<and>
   market_cap_str (PInt 1000000) = Inr ''$1.00M'' \<and>
   market_cap_str (PInt 999999) = Inr ''$999,999'' \<and>
   market_cap_str (PFloat (Fin 2500000000000)) = Inr ''$2.50T'' \<and>
   market_cap_str (PFloat (Fin (99999999 / 100))) = Inr ''$999,999.99'' \<and>
   fmt (PFloat (Fin (99999999 / 100))) = Inr ''$999999.99'' \<and>
   market_cap_str (PFloat (Fin 500)) = Inr ''$500.0'' \<and>
   fmt (PFloat (Fin (18984 / 100))) = Inr ''$189.84'' \<and>
   market_cap_str (PFloat (Fin 0)) = Inr ''N/A'' \<and>
   market_cap_str (PFloat NaN) = Inr ''$nan'' \<and> fmt (PFloat NaN) = Inr ''$nan'' \<and>
   fmt (PFloat NegInf) = Inr ''$-infT''"
proof -
  have t1: "market_cap_str (PInt 2500000000000) = Inr ''$2.50T'' \<and> fmt (PInt 2500000000000) = Inr ''$2.50T''"
    using market_cap_formatting[of 2500000000000 "Fin 2500000000000"]
    unfolding float_2f_div_examples float_of_int_examples by simp
  have t2: "market_cap_str (PInt 3400000000) = Inr ''$3.40B'' \<and> fmt (PInt 3400000000) = Inr ''$3.40B''"
    using market_cap_formatting[of 3400000000 "Fin 3400000000"]
    unfolding float_2f_div_examples float_of_int_examples by simp
  have t3: "market_cap_str (PInt 7000000) = Inr ''$7.00M'' \<and> fmt (PInt 7000000) = Inr ''$7.00M''"
    using market_cap_formatting[of 7000000 "Fin 7000000"]
    unfolding float_2f_div_examples float_of_int_examples by simp
  have t4: "market_cap_str (PInt 500) = Inr ''$500'' \<and> fmt (PInt 500) = Inr ''$500.00''"
    using market_cap_formatting[of 500] unfolding int_text_examples by simp
  have t5: "market_cap_str (PInt 0) = Inr ''N/A''"
    using market_cap_formatting[of 0] by simp
  have t6: "market_cap_str (PInt 1000000000000) = Inr ''$1.00T''"
    using market_cap_formatting[of 1000000000000 "Fin 1000000000000"]
    unfolding float_2f_div_examples float_of_int_examples by simp
  have t7: "market_cap_str (PInt 999999999999) = Inr ''$1000.00B''"
    using market_cap_formatting[of 999999999999 "Fin 999999999999"]
    unfolding float_2f_div_examples float_of_int_examples by simp
  have t8: "market_cap_str (PInt 1000000000) = Inr ''$1.00B''"
    using market_cap_formatting[of 1000000000 "Fin 1000000000"]
    unfolding float_2f_div_examples float_of_int_examples by simp
  have t9: "market_cap_str (PInt 999999999) = Inr ''$1000.00M''"
    using market_cap_formatting[of 999999999 "Fin 999999999"]
    unfolding float_2f_div_examples float_of_int_examples by simp
  have t10: "market_cap_str (PInt 1000000) = Inr ''$1.00M''"
    using market_cap_formatting[of 1000000 "Fin 1000000"]
    unfolding float_2f_div_examples float_of_int_examples by simp
  have t11: "market_cap_str (PInt 999999) = Inr ''$999,999''"
    using market_cap_formatting[of 999999] unfolding int_text_examples by simp
  have u1: "market_cap_str (PFloat (Fin 2500000000000)) = Inr ''$2.50T''"
    using float_examples(1) float_2f_div_examples(1) market_cap_formatting[of 0 _ _ "Fin 2500000000000"]
    by simp
  have u2: "market_cap_str (PFloat (Fin (99999999 / 100))) = Inr ''$999,999.99'' \<and>
            fmt (PFloat (Fin (99999999 / 100))) = Inr ''$999999.99''"
    using float_examples(2,3,4,5,6) market_cap_formatting[of 0 _ _ "Fin (99999999 / 100)"]
    by simp
  have u3: "market_cap_str (PFloat (Fin 500)) = Inr ''$500.0''"
    using float_examples(7,8,9) market_cap_formatting[of 0 _ _ "Fin 500"]
    by simp
  have u4: "fmt (PFloat (Fin (18984 / 100))) = Inr ''$189.84''"
    using float_examples(10,11) market_cap_formatting[of 0 _ _ "Fin (18984 / 100)"]
    by simp
  have u5: "market_cap_str (PFloat (Fin 0)) = Inr ''N/A''"
    using float_examples(12) market_cap_formatting[of 0 _ _ "Fin 0"] by simp
  have u6: "market_cap_str (PFloat NaN) = Inr ''$nan'' \<and> fmt (PFloat NaN) = Inr ''$nan''"
    using market_cap_formatting[of 0 _ _ NaN]
    by (simp add: special_float_examples)
  have u7: "fmt (PFloat NegInf) = Inr ''$-infT''"
    using market_cap_formatting[of 0 _ _ NegInf]
    by (simp add: special_float_examples)
  from t1 t2 t3 t4 t5 t6 t7 t8 t9 t10 t11 u1 u2 u3 u4 u5 u6 u7 show ?thesis by blast
qed

section \<open>The metric tiles\<close>

text \<open>
  C3, as the code has it. A missing dividend yield does not render as \<open>N/A\<close>: the
  tile passes its own fallback \<open>0.00%\<close> to \<open>safe_fmt\<close>.
\<close>

theorem dividend_tile_missing_counterexample:
  "dividend_tile Map.empty = ''0.00%'' \<and> dividend_tile Map.empty \<noteq> ''N/A''"
  by (simp add: dividend_tile_def safe_fmt_def safe_fmt_body_def dict_get_def)

text \<open>
  C3, amended. For a missing field the P/E tile and the market-cap tile show
  \<open>N/A\<close>, the price tile shows \<open>N/A\<close> behind its dollar sign, and the dividend-yield
  tile shows \<open>0.00%\<close>.
\<close>

theorem missing_field_tiles:
  "(dict_get info ''trailingPE'' = PNone \<longrightarrow> pe_tile info = ''N/A'') \<and>
   (dict_get info ''marketCap'' = PNone \<longrightarrow> market_cap_tile info = Inr ''N/A'') \<and>
   (dict_get info ''currentPrice'' = PNone \<longrightarrow> price_tile info = ''$N/A'') \<and>
   (dict_get info ''dividendYield'' = PNone \<longrightarrow> dividend_tile info = ''0.00%'')"
  by (simp add: pe_tile_def market_cap_tile_def price_tile_def dividend_tile_def
      safe_fmt_def safe_fmt_body_def market_cap_str_def)

text \<open>The four tiles for a record whose price is \<open>None\<close> and whose other fields are absent.\<close>

theorem missing_field_tiles_witness:
  "pe_tile [''currentPrice'' \<mapsto> PNone] = ''N/A'' \<and>
   market_cap_tile [''currentPrice'' \<mapsto> PNone] = Inr ''N/A'' \<and>
   price_tile [''currentPrice'' \<mapsto> PNone] = ''$N/A'' \<and>
   dividend_tile [''currentPrice'' \<mapsto> PNone] = ''0.00%''"
  using missing_field_tiles[of "[''currentPrice'' \<mapsto> PNone]"]
  by (simp add: dict_get_def)


section \<open>Configuration\<close>

text \<open>
  C9. When the key is not in the process environment after \<open>load_dotenv\<close>, the
  module \<open>config\<close> raises a \<open>ValueError\<close> whose message tells how to supply the key,
  and a run of the script ends with this exception before it has put anything on
  the page, called anything or touched the session.
\<close>

theorem missing_key_halts_startup:
  assumes "snd (load_dotenv w environ) ''OPENAI_API_KEY'' = None"
  shows "snd (config w environ is_main) = Inl (ValueError missing_key_message) \<and>
         uncaught (app_script w environ state user_input) = Some (ValueError missing_key_message) \<and>
         trace (app_script w environ state user_input) = [] \<and>
         session (app_script w environ state user_input) = state \<and>
         (\<exists>a b. missing_key_message =
            a @ ''Create a .env file in your project root with the line:'' @ b @
            ''OPENAI_API_KEY=sk-your_real_openai_api_key_here'')"
proof -
  have c: "\<And>m. snd (config w environ m) = Inl (ValueError missing_key_message)"
    using assms by (cases "load_dotenv w environ") (simp add: config_def Let_def)
  have m: "\<exists>a b. missing_key_message =
            a @ ''Create a .env file in your project root with the line:'' @ b @
            ''OPENAI_API_KEY=sk-your_real_openai_api_key_here''"
    unfolding missing_key_message_def
    by (rule exI[of _ "siren_emoji @ '' OPENAI_API_KEY not found.'' @ NL @ point_emoji @ '' ''"],
        rule exI[of _ NL]) simp
  obtain out where "config w environ False = (out, Inl (ValueError missing_key_message))"
    using c[of False] by (cases "config w environ False") auto
  then show ?thesis using c m by (simp add: app_script_def)
qed

text \<open>A run with an empty environment and no file to load.\<close>

theorem missing_key_halts_startup_witness:
  "snd (config quiet_world Map.empty False) = Inl (ValueError missing_key_message) \<and>
   uncaught (app_script quiet_world Map.empty None (Some ''What is up with AAPL?'')) =
     Some (ValueError missing_key_message) \<and>
   trace (app_script quiet_world Map.empty None (Some ''What is up with AAPL?'')) = [] \<and>
   session (app_script quiet_world Map.empty None (Some ''What is up with AAPL?'')) = None"
  using missing_key_halts_startup[of quiet_world Map.empty False None "Some ''What is up with AAPL?''"]
  by (simp add: quiet_world_def)


end
